theory Spec2Isabelle
  imports Main "HOL-Library.Word"
begin

section \<open>Values on the wire\<close>

text \<open>
  A \<^verbatim>\<open>Buffer\<close> or \<^verbatim>\<open>Uint8Array\<close> is a list of 8-bit words. A JavaScript string is
  represented by the bytes of its UTF-8 encoding, one \<^typ>\<open>char\<close> per byte. Every message
  of the service is a plain JavaScript object, so a message is a \<open>json\<close> value; a property
  that is absent reads as \<open>None\<close> (\<^verbatim>\<open>undefined\<close>).
\<close>

type_synonym byte = "8 word"
type_synonym bytes = "byte list"

datatype json =
    JNull
  | JBool bool
  | JNum int
  | JStr string
  | JArr "json list"
  | JObj "(string \<times> json) list"

text \<open>The enum \<^verbatim>\<open>MessageType\<close> of the type declarations, with its string values.\<close>

datatype MessageType =
  JOIN_ROOM | LEAVE_ROOM | DOCUMENT_UPDATE | DOCUMENT_STATE | SYNC_UPDATE | ERROR | ACK

fun MessageType_value :: "MessageType \<Rightarrow> string" where
  "MessageType_value JOIN_ROOM = ''join-room''"
| "MessageType_value LEAVE_ROOM = ''leave-room''"
| "MessageType_value DOCUMENT_UPDATE = ''document-update''"
| "MessageType_value DOCUMENT_STATE = ''document-state''"
| "MessageType_value SYNC_UPDATE = ''sync-update''"
| "MessageType_value ERROR = ''error''"
| "MessageType_value ACK = ''ack''"

text \<open>
  Property access \<^verbatim>\<open>v.k\<close> on a value that is not \<^verbatim>\<open>null\<close>: the entry of an object,
  \<^verbatim>\<open>undefined\<close> on anything else (none of the keys read by the service is a property of
  a string, number, boolean or array). On \<^verbatim>\<open>null\<close> the access throws; the callers below
  treat \<open>JNull\<close> before they read.
\<close>

fun js_get :: "json \<Rightarrow> string \<Rightarrow> json option" where
  "js_get (JObj kvs) k = map_of kvs k"
| "js_get _ k = None"

text \<open>Truthiness, as tested by \<^verbatim>\<open>!x\<close> and \<^verbatim>\<open>if (x)\<close>.\<close>

fun js_truthy :: "json option \<Rightarrow> bool" where
  "js_truthy None = False"
| "js_truthy (Some JNull) = False"
| "js_truthy (Some (JBool b)) = b"
| "js_truthy (Some (JNum n)) = (n \<noteq> 0)"
| "js_truthy (Some (JStr s)) = (s \<noteq> [])"
| "js_truthy (Some (JArr xs)) = True"
| "js_truthy (Some (JObj kvs)) = True"

text \<open>
  \<^verbatim>\<open>Object.entries\<close> of a parsed update. An array lists its elements under their indices
  and a string its characters; numbers and booleans have no own enumerable property.
\<close>

fun index_keys :: "nat \<Rightarrow> 'a list \<Rightarrow> (nat \<times> 'a) list" where
  "index_keys i [] = []"
| "index_keys i (x # xs) = (i, x) # index_keys (Suc i) xs"

fun digits_of :: "nat \<Rightarrow> nat \<Rightarrow> string" where
  "digits_of 0 n = []"
| "digits_of (Suc fuel) n =
     (if n < 10 then [char_of (48 + n)]
      else digits_of fuel (n div 10) @ [char_of (48 + n mod 10)])"

definition show_nat :: "nat \<Rightarrow> string" where
  "show_nat n = digits_of (Suc n) n"

fun Object_entries :: "json \<Rightarrow> (string \<times> json) list" where
  "Object_entries (JObj kvs) = kvs"
| "Object_entries (JArr xs) = map (\<lambda>(i, v). (show_nat i, v)) (index_keys 0 xs)"
| "Object_entries (JStr s) = map (\<lambda>(i, c). (show_nat i, JStr [c])) (index_keys 0 s)"
| "Object_entries _ = []"

section \<open>The platform: library calls the service relies on\<close>

text \<open>
  The service calls into Node.js and into the Yjs library; neither is part of the
  repository. Their functions are parameters of the model:

  \<^item> \<open>toStringUtf8\<close> is \<^verbatim>\<open>buffer.toString("utf8")\<close>;
  \<^item> \<open>jsonParse\<close> is \<^verbatim>\<open>JSON.parse\<close>, \<open>None\<close> when it throws; an object it returns
    lists every key once;
  \<^item> \<open>fromBase64\<close> is \<^verbatim>\<open>Buffer.from(s, "base64")\<close> and \<open>toBase64\<close> is
    \<^verbatim>\<open>buffer.toString("base64")\<close>;
  \<^item> \<open>yNewDoc\<close> is \<^verbatim>\<open>new Y.Doc()\<close> followed by \<^verbatim>\<open>doc.getMap('state')\<close>;
  \<^item> \<open>yApplyUpdate\<close> is \<^verbatim>\<open>Y.applyUpdate(doc, update)\<close>: it returns the document as the
    call leaves it, and says whether the call threw;
  \<^item> \<open>yEncodeStateAsUpdate\<close> is \<^verbatim>\<open>Y.encodeStateAsUpdate(doc)\<close>;
  \<^item> \<open>yMapSet\<close> is \<^verbatim>\<open>doc.getMap('state').set(key, value)\<close>.
\<close>

datatype 'doc applied = Applied 'doc | Threw 'doc

fun docAfter :: "'doc applied \<Rightarrow> 'doc" where
  "docAfter (Applied d) = d"
| "docAfter (Threw d) = d"

record 'doc platform =
  toStringUtf8 :: "bytes \<Rightarrow> string"
  jsonParse :: "string \<Rightarrow> json option"
  fromBase64 :: "string \<Rightarrow> bytes"
  toBase64 :: "bytes \<Rightarrow> string"
  yNewDoc :: "'doc"
  yApplyUpdate :: "'doc \<Rightarrow> bytes \<Rightarrow> 'doc applied"
  yEncodeStateAsUpdate :: "'doc \<Rightarrow> bytes"
  yMapSet :: "'doc \<Rightarrow> string \<Rightarrow> json \<Rightarrow> 'doc"

section \<open>Reading a buffer\<close>

text \<open>
  The little-endian readers of \<^verbatim>\<open>Buffer\<close>. Out of range they throw a \<^verbatim>\<open>RangeError\<close>,
  which is \<open>None\<close> here.
\<close>

fun le_value :: "bytes \<Rightarrow> nat" where
  "le_value [] = 0"
| "le_value (b # bs) = unat b + 256 * le_value bs"

definition slice :: "bytes \<Rightarrow> nat \<Rightarrow> nat \<Rightarrow> bytes" where
  "slice buffer start end = take (end - start) (drop start buffer)"

definition readUIntLE :: "nat \<Rightarrow> bytes \<Rightarrow> nat \<Rightarrow> nat option" where
  "readUIntLE width buffer offset =
     (if offset + width \<le> length buffer
      then Some (le_value (slice buffer offset (offset + width))) else None)"

definition readUInt8 :: "bytes \<Rightarrow> nat \<Rightarrow> nat option" where
  "readUInt8 = readUIntLE 1"

definition readUInt16LE :: "bytes \<Rightarrow> nat \<Rightarrow> nat option" where
  "readUInt16LE = readUIntLE 2"

definition readUInt32LE :: "bytes \<Rightarrow> nat \<Rightarrow> nat option" where
  "readUInt32LE = readUIntLE 4"

definition readBigUInt64LE :: "bytes \<Rightarrow> nat \<Rightarrow> nat option" where
  "readBigUInt64LE = readUIntLE 8"

section \<open>WebSocketHandler: the binary frame decoder\<close>

text \<open>
  \<^verbatim>\<open>decodeBinaryDocumentUpdate(data, clientId)\<close>. The result \<open>None\<close> is the source's
  \<^verbatim>\<open>null\<close>, returned by its guards and by its \<^verbatim>\<open>catch\<close>. \<open>now\<close> is the value of
  \<^verbatim>\<open>Date.now()\<close>. The timestamp of the frame is carried as the integer the eight bytes
  denote (the rounding of \<^verbatim>\<open>Number\<close> beyond \<open>2^53\<close> is not modelled).
\<close>

definition or_empty :: "string option \<Rightarrow> string" where
  "or_empty clientId = (case clientId of None \<Rightarrow> [] | Some c \<Rightarrow> c)"

definition optional_field :: "string \<Rightarrow> string option \<Rightarrow> (string \<times> json) list" where
  "optional_field k v = (case v of None \<Rightarrow> [] | Some s \<Rightarrow> [(k, JStr s)])"

definition decodeBinaryDocumentUpdate ::
  "'doc platform \<Rightarrow> nat \<Rightarrow> bytes \<Rightarrow> string option \<Rightarrow> json option" where
  "decodeBinaryDocumentUpdate P now buffer clientId =
     (if length buffer < 15 then None
      else case readUInt8 buffer 0 of None \<Rightarrow> None | Some type \<Rightarrow>
        if type \<noteq> 1 then None
        else case readUInt16LE buffer 1 of None \<Rightarrow> None | Some roomLen \<Rightarrow>
          if 3 + roomLen > length buffer then None
          else let roomId = toStringUtf8 P (slice buffer 3 (3 + roomLen)) in
            if 3 + roomLen + 8 > length buffer then None
            else case readBigUInt64LE buffer (3 + roomLen) of None \<Rightarrow> None | Some timestamp \<Rightarrow>
              if 3 + roomLen + 8 + 4 > length buffer then None
              else case readUInt32LE buffer (3 + roomLen + 8) of None \<Rightarrow> None | Some updateLen \<Rightarrow>
                if 3 + roomLen + 8 + 4 + updateLen \<noteq> length buffer then None
                else let updateBytes =
                           slice buffer (3 + roomLen + 8 + 4) (3 + roomLen + 8 + 4 + updateLen)
                  in Some (JObj
                       ([(''type'', JStr (MessageType_value DOCUMENT_UPDATE)),
                         (''roomId'', JStr roomId)]
                        @ optional_field ''clientId'' clientId
                        @ [(''payload'', JObj
                              [(''update'', JStr (toBase64 P updateBytes)),
                               (''clientId'', JStr (or_empty clientId)),
                               (''timestamp'', JNum (int timestamp))]),
                           (''timestamp'', JNum (int now))])))"


section \<open>The state of one server instance\<close>

text \<open>
  The objects of one instance are created once at start-up and share one
  \<^verbatim>\<open>CrdtService\<close>; their private fields are gathered in one record. A \<^verbatim>\<open>Map\<close> is a
  partial function, a \<^verbatim>\<open>Set\<close> of strings is a list without duplicates in insertion order
  (the order in which a broadcast walks it). Log output is not part of the state.
\<close>

record IClient =
  client_id :: string
  roomId :: string
  instanceId :: string
  joinedAt :: nat

record IRoom =
  room_id :: string
  createdAt :: nat
  clientCount :: nat
  updatesCount :: nat
  lastUpdateAt :: "nat option"

text \<open>
  A socket of the \<^verbatim>\<open>ws\<close> library: its ready state and the messages handed to
  \<^verbatim>\<open>send\<close> while it was open, oldest first. A socket that the server accepted is
  never \<^verbatim>\<open>CONNECTING\<close>.
\<close>

datatype ReadyState = OPEN | CLOSING | CLOSED

record WebSocket =
  readyState :: ReadyState
  sent :: "json list"

text \<open>
  \<open>rooms\<close>, \<open>roomClients\<close>, \<open>clients\<close> belong to \<^verbatim>\<open>RoomManager\<close>; \<open>documents\<close> to
  \<^verbatim>\<open>CrdtService\<close>; \<open>subscriptions\<close> to \<^verbatim>\<open>RedisService\<close>, together with the calls it
  made on its two Redis clients (\<open>listeners\<close>: the listeners registered by
  \<^verbatim>\<open>client.subscribe\<close>; \<open>published\<close>: the messages accepted by
  \<^verbatim>\<open>pubClient.publish\<close>); \<open>clientConnections\<close> to \<^verbatim>\<open>WebSocketHandler\<close>; the four
  counters to \<^verbatim>\<open>MetricsService\<close> (its two gauges, set from the registry once a second,
  are left out: no handler reads them). A subscription callback is a closure of the handler
  over a room id and is represented by that room id.
\<close>

record 'doc server =
  rooms :: "string \<rightharpoonup> IRoom"
  roomClients :: "string \<rightharpoonup> string list"
  clients :: "string \<rightharpoonup> IClient"
  documents :: "string \<rightharpoonup> 'doc"
  subscriptions :: "string \<rightharpoonup> string"
  listeners :: "(string \<times> string) list"
  published :: "(string \<times> json) list"
  clientConnections :: "string \<rightharpoonup> WebSocket"
  messagesProcessed :: nat
  updatesApplied :: nat
  connectionErrors :: nat
  latenciesRecorded :: nat

definition initial :: "'doc server" where
  "initial =
     \<lparr>rooms = Map.empty, roomClients = Map.empty, clients = Map.empty,
      documents = Map.empty, subscriptions = Map.empty, listeners = [], published = [],
      clientConnections = Map.empty, messagesProcessed = 0, updatesApplied = 0,
      connectionErrors = 0, latenciesRecorded = 0\<rparr>"

text \<open>A call that returns, or throws, leaving the state it is given with.\<close>

datatype 'a outcome = Returns 'a | Throws 'a

fun after :: "'a outcome \<Rightarrow> 'a" where
  "after (Returns s) = s"
| "after (Throws s) = s"

section \<open>CrdtService\<close>

definition getOrCreateDocument ::
  "'doc platform \<Rightarrow> string \<Rightarrow> 'doc server \<Rightarrow> 'doc \<times> 'doc server" where
  "getOrCreateDocument P room s =
     (case documents s room of
        Some doc \<Rightarrow> (doc, s)
      | None \<Rightarrow> (yNewDoc P, s\<lparr>documents := (documents s)(room \<mapsto> yNewDoc P)\<rparr>))"

definition getDocument :: "string \<Rightarrow> 'doc server \<Rightarrow> 'doc option" where
  "getDocument room s = documents s room"

text \<open>
  \<^verbatim>\<open>applyJsonUpdate\<close>: one transaction that sets every entry of the update object, in
  the order of \<^verbatim>\<open>Object.entries\<close>. Setting a JSON value does not throw.
\<close>

definition applyJsonUpdate ::
  "'doc platform \<Rightarrow> string \<Rightarrow> json \<Rightarrow> 'doc server \<Rightarrow> 'doc server" where
  "applyJsonUpdate P room updateObj s =
     (let (doc, s1) = getOrCreateDocument P room s;
          doc' = fold (\<lambda>(key, value) d. yMapSet P d key value) (Object_entries updateObj) doc
      in s1\<lparr>documents := (documents s1)(room \<mapsto> doc')\<rparr>)"

text \<open>
  \<^verbatim>\<open>applyUpdate\<close>: an empty update is logged and dropped before the document is looked
  up; an exception of \<^verbatim>\<open>Y.applyUpdate\<close> is logged and thrown on to the caller.
\<close>

definition applyUpdate ::
  "'doc platform \<Rightarrow> string \<Rightarrow> bytes \<Rightarrow> 'doc server \<Rightarrow> 'doc server outcome" where
  "applyUpdate P room update s =
     (if length update = 0 then Returns s
      else let (doc, s1) = getOrCreateDocument P room s
           in case yApplyUpdate P doc update of
                Applied doc' \<Rightarrow> Returns (s1\<lparr>documents := (documents s1)(room \<mapsto> doc')\<rparr>)
              | Threw doc' \<Rightarrow> Throws (s1\<lparr>documents := (documents s1)(room \<mapsto> doc')\<rparr>))"

definition getDocumentState ::
  "'doc platform \<Rightarrow> string \<Rightarrow> 'doc server \<Rightarrow> bytes \<times> 'doc server" where
  "getDocumentState P room s =
     (let (doc, s1) = getOrCreateDocument P room s in (yEncodeStateAsUpdate P doc, s1))"

definition deleteDocument :: "string \<Rightarrow> 'doc server \<Rightarrow> 'doc server" where
  "deleteDocument room s =
     (case getDocument room s of
        None \<Rightarrow> s
      | Some doc \<Rightarrow> s\<lparr>documents := (documents s)(room := None)\<rparr>)"

section \<open>RoomManager\<close>

definition getOrCreateRoom ::
  "'doc platform \<Rightarrow> nat \<Rightarrow> string \<Rightarrow> 'doc server \<Rightarrow> IRoom \<times> 'doc server" where
  "getOrCreateRoom P now room s =
     (case rooms s room of
        None \<Rightarrow>
          let r = \<lparr>room_id = room, createdAt = now, clientCount = 0,
                   updatesCount = 0, lastUpdateAt = None\<rparr>;
              s1 = s\<lparr>rooms := (rooms s)(room \<mapsto> r),
                     roomClients := (roomClients s)(room \<mapsto> [])\<rparr>
          in (r, snd (getOrCreateDocument P room s1))
      | Some r \<Rightarrow> (r, s))"

text \<open>\<^verbatim>\<open>Set.add\<close>, \<^verbatim>\<open>Set.delete\<close> and \<^verbatim>\<open>Set.size\<close> on the list of a set.\<close>

definition set_add :: "string \<Rightarrow> string list \<Rightarrow> string list" where
  "set_add x xs = (if x \<in> set xs then xs else xs @ [x])"

definition set_delete :: "string \<Rightarrow> string list \<Rightarrow> string list" where
  "set_delete x xs = removeAll x xs"

text \<open>
  \<^verbatim>\<open>addClientToRoom\<close>. The source reads \<^verbatim>\<open>this.roomClients.get(roomId)!\<close>; were the
  member set missing, the call on \<^verbatim>\<open>undefined\<close> would throw after the client record
  has been stored. The count is written into the room object that \<^verbatim>\<open>getOrCreateRoom\<close>
  returned, which is the one stored under the room id. One value of \<^verbatim>\<open>Date.now()\<close>
  serves the whole call.
\<close>

definition addClientToRoom ::
  "'doc platform \<Rightarrow> nat \<Rightarrow> string \<Rightarrow> string \<Rightarrow> string \<Rightarrow> 'doc server
     \<Rightarrow> 'doc server outcome" where
  "addClientToRoom P now clientId room inst s =
     (let (r, s1) = getOrCreateRoom P now room s;
          client = \<lparr>client_id = clientId, roomId = room, instanceId = inst, joinedAt = now\<rparr>;
          s2 = s1\<lparr>clients := (clients s1)(clientId \<mapsto> client)\<rparr>
      in case roomClients s2 room of
           None \<Rightarrow> Throws s2
         | Some members \<Rightarrow>
             let members' = set_add clientId members;
                 s3 = s2\<lparr>roomClients := (roomClients s2)(room \<mapsto> members')\<rparr>
             in Returns (s3\<lparr>rooms := (rooms s3)(room \<mapsto> r\<lparr>clientCount := length members'\<rparr>)\<rparr>))"

definition deleteRoom :: "string \<Rightarrow> 'doc server \<Rightarrow> 'doc server" where
  "deleteRoom room s =
     deleteDocument room
       (s\<lparr>rooms := (rooms s)(room := None), roomClients := (roomClients s)(room := None)\<rparr>)"

definition removeClientFromRoom :: "string \<Rightarrow> 'doc server \<Rightarrow> 'doc server" where
  "removeClientFromRoom clientId s =
     (case clients s clientId of
        None \<Rightarrow> s
      | Some client \<Rightarrow>
          let s1 = (case roomClients s (roomId client) of
                      None \<Rightarrow> s
                    | Some members \<Rightarrow>
                        s\<lparr>roomClients :=
                            (roomClients s)(roomId client \<mapsto> set_delete clientId members)\<rparr>);
              s2 = (case rooms s1 (roomId client) of
                      None \<Rightarrow> s1
                    | Some r \<Rightarrow>
                        let n = (case roomClients s1 (roomId client) of
                                   None \<Rightarrow> 0 | Some members \<Rightarrow> length members);
                            s1' = s1\<lparr>rooms := (rooms s1)(roomId client \<mapsto> r\<lparr>clientCount := n\<rparr>)\<rparr>
                        in if n = 0 then deleteRoom (roomId client) s1' else s1')
          in s2\<lparr>clients := (clients s2)(clientId := None)\<rparr>)"

definition getClientsInRoom :: "string \<Rightarrow> 'doc server \<Rightarrow> IClient list" where
  "getClientsInRoom room s =
     (case roomClients s room of
        None \<Rightarrow> []
      | Some clientIds \<Rightarrow> List.map_filter (clients s) clientIds)"

definition getClient :: "string \<Rightarrow> 'doc server \<Rightarrow> IClient option" where
  "getClient clientId s = clients s clientId"

definition recordUpdate :: "nat \<Rightarrow> string \<Rightarrow> 'doc server \<Rightarrow> 'doc server" where
  "recordUpdate now room s =
     (case rooms s room of
        None \<Rightarrow> s
      | Some r \<Rightarrow>
          s\<lparr>rooms := (rooms s)(room \<mapsto>
                 r\<lparr>updatesCount := updatesCount r + 1, lastUpdateAt := Some now\<rparr>)\<rparr>)"

section \<open>RedisService\<close>

text \<open>
  \<^verbatim>\<open>subscribe\<close> stores the callback and then awaits \<^verbatim>\<open>client.subscribe\<close>; \<open>ok\<close>
  tells whether that call of the Redis client succeeds. \<^verbatim>\<open>publish\<close> awaits
  \<^verbatim>\<open>pubClient.publish\<close>, whose reply is \<open>reply\<close> (\<open>None\<close> when it throws).
\<close>

definition subscribe :: "string \<Rightarrow> string \<Rightarrow> bool \<Rightarrow> 'doc server \<Rightarrow> 'doc server outcome" where
  "subscribe channel callback ok s =
     (let s1 = s\<lparr>subscriptions := (subscriptions s)(channel \<mapsto> callback)\<rparr>
      in if ok then Returns (s1\<lparr>listeners := listeners s1 @ [(channel, callback)]\<rparr>)
         else Throws s1)"

definition publish ::
  "string \<Rightarrow> json \<Rightarrow> nat option \<Rightarrow> 'doc server \<Rightarrow> 'doc server outcome" where
  "publish channel message reply s =
     (case reply of
        Some n \<Rightarrow> Returns (s\<lparr>published := published s @ [(channel, message)]\<rparr>)
      | None \<Rightarrow> Throws s)"

text \<open>\<^verbatim>\<open>getStatus().subscribedChannels.includes(channel)\<close>.\<close>

definition subscribedChannels_includes :: "'doc server \<Rightarrow> string \<Rightarrow> bool" where
  "subscribedChannels_includes s channel = (subscriptions s channel \<noteq> None)"


section \<open>WebSocketHandler\<close>

subsection \<open>Does a buffer look like JSON text\<close>

text \<open>
  The test \<^verbatim>\<open>buffer.toString("utf8").trim().startsWith("{")\<close>, computed on the bytes.
  \<^verbatim>\<open>trim\<close> removes the white space and line terminators of ECMAScript; their UTF-8
  encodings are listed below. A byte sequence that is not well-formed UTF-8 decodes to
  U+FFFD, which is neither white space nor a brace, so the test can be made on the bytes.
  Trimming the end of a string does not change its first character, so only the leading
  white space is removed here.
\<close>

definition white_space_encodings :: "bytes list" where
  "white_space_encodings =
     [[0x09], [0x0A], [0x0B], [0x0C], [0x0D], [0x20], [0xC2, 0xA0], [0xE1, 0x9A, 0x80],
      [0xE2, 0x80, 0x80], [0xE2, 0x80, 0x81], [0xE2, 0x80, 0x82], [0xE2, 0x80, 0x83],
      [0xE2, 0x80, 0x84], [0xE2, 0x80, 0x85], [0xE2, 0x80, 0x86], [0xE2, 0x80, 0x87],
      [0xE2, 0x80, 0x88], [0xE2, 0x80, 0x89], [0xE2, 0x80, 0x8A], [0xE2, 0x80, 0xA8],
      [0xE2, 0x80, 0xA9], [0xE2, 0x80, 0xAF], [0xE2, 0x81, 0x9F], [0xE3, 0x80, 0x80],
      [0xEF, 0xBB, 0xBF]]"

fun strip_prefix :: "bytes \<Rightarrow> bytes \<Rightarrow> bytes option" where
  "strip_prefix [] bs = Some bs"
| "strip_prefix (p # ps) [] = None"
| "strip_prefix (p # ps) (b # bs) = (if p = b then strip_prefix ps bs else None)"

fun strip_white_space :: "bytes list \<Rightarrow> bytes \<Rightarrow> bytes option" where
  "strip_white_space [] bs = None"
| "strip_white_space (w # ws) bs =
     (case strip_prefix w bs of Some rest \<Rightarrow> Some rest | None \<Rightarrow> strip_white_space ws bs)"

fun trimStart :: "nat \<Rightarrow> bytes \<Rightarrow> bytes" where
  "trimStart 0 bs = bs"
| "trimStart (Suc fuel) bs =
     (case strip_white_space white_space_encodings bs of
        None \<Rightarrow> bs
      | Some rest \<Rightarrow> trimStart fuel rest)"

definition looksLikeJson :: "bytes \<Rightarrow> bool" where
  "looksLikeJson buffer =
     (case trimStart (length buffer) buffer of [] \<Rightarrow> False | b # bs \<Rightarrow> b = 0x7B)"

subsection \<open>Sending\<close>

text \<open>
  \<^verbatim>\<open>ws.send\<close> on the socket of a client. The handler holds the socket it looked up under
  the client id, and every socket is stored under one id, so the socket is addressed by
  that id. Outside the state \<open>OPEN\<close> nothing is delivered; the call is taken to return,
  as it does in current versions of the library, rather than to throw.
\<close>

definition ws_send :: "json \<Rightarrow> WebSocket \<Rightarrow> WebSocket" where
  "ws_send message ws =
     (if readyState ws = OPEN then ws\<lparr>sent := sent ws @ [message]\<rparr> else ws)"

definition send_to :: "string \<Rightarrow> json \<Rightarrow> 'doc server \<Rightarrow> 'doc server" where
  "send_to clientId message s =
     (case clientConnections s clientId of
        None \<Rightarrow> s
      | Some ws \<Rightarrow> s\<lparr>clientConnections := (clientConnections s)(clientId \<mapsto> ws_send message ws)\<rparr>)"

definition error_message :: "nat \<Rightarrow> string \<Rightarrow> json" where
  "error_message now errorMessage =
     JObj [(''type'', JStr (MessageType_value ERROR)),
           (''roomId'', JStr []),
           (''payload'', JObj [(''error'', JStr errorMessage)]),
           (''timestamp'', JNum (int now))]"

definition sendError :: "nat \<Rightarrow> string \<Rightarrow> string \<Rightarrow> 'doc server \<Rightarrow> 'doc server" where
  "sendError now clientId errorMessage s = send_to clientId (error_message now errorMessage) s"

text \<open>
  \<^verbatim>\<open>broadcastToRoom\<close>: every member of the room that has a client record, but the
  excluded one, is sent the message when its socket is stored and open.
\<close>

definition excluded :: "string option \<Rightarrow> IClient \<Rightarrow> bool" where
  "excluded excludeClientId client =
     (case excludeClientId of
        None \<Rightarrow> False
      | Some e \<Rightarrow> e \<noteq> [] \<and> client_id client = e)"

definition broadcastToRoom ::
  "string \<Rightarrow> json \<Rightarrow> string option \<Rightarrow> 'doc server \<Rightarrow> 'doc server" where
  "broadcastToRoom room message excludeClientId s =
     fold (\<lambda>client s'.
             if excluded excludeClientId client then s'
             else send_to (client_id client) message s')
          (getClientsInRoom room s) s"

subsection \<open>The fields of an inbound message\<close>

text \<open>
  \<^verbatim>\<open>IMessage\<close> declares \<^verbatim>\<open>roomId: string\<close>. A message without a room id, or with an
  empty one, fails the test \<^verbatim>\<open>!roomId\<close>; both read as the empty string here. A room id
  of another JSON type is outside the declared type and reads as absent too.
\<close>

definition roomId_of :: "json \<Rightarrow> string" where
  "roomId_of message =
     (case js_get message ''roomId'' of Some (JStr r) \<Rightarrow> r | _ \<Rightarrow> [])"

definition channel_of :: "string \<Rightarrow> string" where
  "channel_of room = ''room:'' @ room @ '':updates''"

subsection \<open>JOIN_ROOM and LEAVE_ROOM\<close>

text \<open>
  \<^verbatim>\<open>handleJoinRoom\<close>; \<open>sub_ok\<close> tells whether the Redis client accepts a subscription,
  should the handler ask for one. Each handler runs to its end before the next event is
  taken up; what it awaits is given to it as an argument.
\<close>

definition state_message :: "'doc platform \<Rightarrow> nat \<Rightarrow> string \<Rightarrow> string \<Rightarrow> bytes \<Rightarrow> json" where
  "state_message P now room clientId documentState =
     JObj [(''type'', JStr (MessageType_value DOCUMENT_STATE)),
           (''roomId'', JStr room),
           (''clientId'', JStr clientId),
           (''payload'', JObj [(''state'', JStr (toBase64 P documentState)),
                               (''timestamp'', JNum (int now))]),
           (''timestamp'', JNum (int now))]"

definition joined_ack :: "nat \<Rightarrow> string \<Rightarrow> string \<Rightarrow> json" where
  "joined_ack now room clientId =
     JObj [(''type'', JStr (MessageType_value ACK)),
           (''roomId'', JStr room),
           (''clientId'', JStr clientId),
           (''payload'', JObj [(''message'', JStr (''You joined the room '' @ room)),
                               (''clientJoined'', JStr clientId)]),
           (''timestamp'', JNum (int now))]"

definition joined_notice :: "nat \<Rightarrow> string \<Rightarrow> string \<Rightarrow> json" where
  "joined_notice now room clientId =
     JObj [(''type'', JStr (MessageType_value ACK)),
           (''roomId'', JStr room),
           (''payload'', JObj
              [(''message'', JStr (''Client '' @ clientId @ '' joined the room'')),
               (''clientJoined'', JStr clientId)]),
           (''timestamp'', JNum (int now))]"

definition left_notice :: "nat \<Rightarrow> string \<Rightarrow> string \<Rightarrow> json" where
  "left_notice now room clientId =
     JObj [(''type'', JStr (MessageType_value ACK)),
           (''roomId'', JStr room),
           (''payload'', JObj
              [(''message'', JStr (''Client '' @ clientId @ '' left the room'')),
               (''clientLeft'', JStr clientId)]),
           (''timestamp'', JNum (int now))]"

definition handleJoinRoom ::
  "'doc platform \<Rightarrow> string \<Rightarrow> nat \<Rightarrow> bool \<Rightarrow> string \<Rightarrow> json \<Rightarrow> 'doc server \<Rightarrow> 'doc server" where
  "handleJoinRoom P inst now sub_ok clientId message s =
     (let room = roomId_of message in
      if room = [] then sendError now clientId ''Missing roomId'' s
      else case addClientToRoom P now clientId room inst s of
        Throws s1 \<Rightarrow> sendError now clientId ''Failed to join room'' s1
      | Returns s1 \<Rightarrow>
          let (documentState, s2) = getDocumentState P room s1;
              s3 = send_to clientId (state_message P now room clientId documentState) s2;
              s4 = send_to clientId (joined_ack now room clientId) s3;
              s5 = broadcastToRoom room (joined_notice now room clientId) (Some clientId) s4;
              channel = channel_of room
          in if \<not> subscribedChannels_includes s5 channel
             then (case subscribe channel room sub_ok s5 of
                     Returns s6 \<Rightarrow> s6
                   | Throws s6 \<Rightarrow> sendError now clientId ''Failed to subscribe to room updates'' s6)
             else s5)"

definition handleLeaveRoom ::
  "nat \<Rightarrow> string \<Rightarrow> json \<Rightarrow> 'doc server \<Rightarrow> 'doc server" where
  "handleLeaveRoom now clientId message s =
     (let room = roomId_of message in
      if room = [] then s
      else broadcastToRoom room (left_notice now room clientId) (Some clientId)
             (removeClientFromRoom clientId s))"

subsection \<open>DOCUMENT_UPDATE and SYNC_UPDATE\<close>

text \<open>
  The update object of the field-patch path: the text is parsed only when the buffer
  looks like JSON, and a text that does not parse leaves the object \<^verbatim>\<open>null\<close>.
\<close>

definition jsonUpdateObj :: "'doc platform \<Rightarrow> bytes \<Rightarrow> json option" where
  "jsonUpdateObj P buffer =
     (if looksLikeJson buffer then jsonParse P (toStringUtf8 P buffer) else None)"

text \<open>
  The three ways a decoded update is treated by \<^verbatim>\<open>handleDocumentUpdate\<close>: the
  field-patch path (\<^verbatim>\<open>applyJsonUpdate\<close>), the binary merge path (\<^verbatim>\<open>applyUpdate\<close>), or
  dropped because it is empty.
\<close>

datatype path = PatchPath json | MergePath | Dropped

definition update_path :: "'doc platform \<Rightarrow> bytes \<Rightarrow> path" where
  "update_path P buffer =
     (case jsonUpdateObj P buffer of
        Some updateObj \<Rightarrow>
          if js_truthy (Some updateObj) then PatchPath updateObj
          else if length buffer = 0 then Dropped else MergePath
      | None \<Rightarrow> if length buffer = 0 then Dropped else MergePath)"

definition sync_message :: "string \<Rightarrow> nat \<Rightarrow> string \<Rightarrow> string \<Rightarrow> json" where
  "sync_message inst now clientId update_update =
     JObj [(''type'', JStr (MessageType_value SYNC_UPDATE)),
           (''clientId'', JStr clientId),
           (''update'', JStr update_update),
           (''timestamp'', JNum (int now)),
           (''instanceId'', JStr inst)]"

definition update_message :: "nat \<Rightarrow> string \<Rightarrow> string \<Rightarrow> string \<Rightarrow> json" where
  "update_message now room clientId update_update =
     JObj [(''type'', JStr (MessageType_value DOCUMENT_UPDATE)),
           (''roomId'', JStr room),
           (''clientId'', JStr clientId),
           (''payload'', JObj [(''update'', JStr update_update),
                               (''timestamp'', JNum (int now))]),
           (''timestamp'', JNum (int now))]"

text \<open>
  What follows a successful apply in \<^verbatim>\<open>handleDocumentUpdate\<close>: the room's counter, the
  metric, the publication (a failure of which is logged only) and the local broadcast.
  \<open>reply\<close> is the reply of the Redis client to the publish call, \<open>None\<close> when it throws.
\<close>

definition after_apply ::
  "string \<Rightarrow> nat \<Rightarrow> nat option \<Rightarrow> string \<Rightarrow> string \<Rightarrow> string \<Rightarrow> 'doc server \<Rightarrow> 'doc server" where
  "after_apply inst now reply clientId room update_update s1 =
     (let s2 = recordUpdate now room s1;
          s3 = s2\<lparr>updatesApplied := updatesApplied s2 + 1\<rparr>;
          s4 = after (publish (channel_of room)
                        (sync_message inst now clientId update_update) reply s3)
      in broadcastToRoom room (update_message now room clientId update_update)
           (Some clientId) s4)"

definition handleDocumentUpdate ::
  "'doc platform \<Rightarrow> string \<Rightarrow> nat \<Rightarrow> nat option \<Rightarrow> string \<Rightarrow> json \<Rightarrow> 'doc server
     \<Rightarrow> 'doc server" where
  "handleDocumentUpdate P inst now reply clientId message s =
     (let room = roomId_of message; payload = js_get message ''payload'' in
      if room = [] \<or> \<not> js_truthy payload then s
      else case payload of None \<Rightarrow> s | Some update \<Rightarrow>
        (case js_get update ''update'' of
           Some (JStr update_update) \<Rightarrow>
             let buffer = fromBase64 P update_update
             in (case update_path P buffer of
                   PatchPath updateObj \<Rightarrow>
                     after_apply inst now reply clientId room update_update
                       (applyJsonUpdate P room updateObj s)
                 | Dropped \<Rightarrow> s
                 | MergePath \<Rightarrow>
                     (case applyUpdate P room buffer s of
                        Throws s1 \<Rightarrow> s1
                      | Returns s1 \<Rightarrow>
                          after_apply inst now reply clientId room update_update s1))
         | _ \<Rightarrow> s))"

text \<open>
  \<^verbatim>\<open>handleRedisUpdate\<close>. Everything is inside one \<^verbatim>\<open>try\<close>: a text that does not parse, a
  parsed \<^verbatim>\<open>null\<close>, and an \<^verbatim>\<open>update\<close> field that \<^verbatim>\<open>Buffer.from\<close> rejects end the
  handler. The field is a string in every message an instance publishes; other values
  are taken as rejected. This handler does not test for an empty buffer itself.
\<close>

definition optional_json :: "string \<Rightarrow> json option \<Rightarrow> (string \<times> json) list" where
  "optional_json k v = (case v of None \<Rightarrow> [] | Some j \<Rightarrow> [(k, j)])"

definition relayed_message :: "nat \<Rightarrow> string \<Rightarrow> json \<Rightarrow> string \<Rightarrow> json" where
  "relayed_message now room update update_update =
     JObj ([(''type'', JStr (MessageType_value DOCUMENT_UPDATE)),
            (''roomId'', JStr room)]
           @ optional_json ''clientId'' (js_get update ''clientId'')
           @ [(''payload'', JObj ([(''update'', JStr update_update)]
                                  @ optional_json ''timestamp'' (js_get update ''timestamp''))),
              (''timestamp'', JNum (int now))])"

text \<open>The apply step of \<^verbatim>\<open>handleRedisUpdate\<close>, and what follows it when it returns.\<close>

definition apply_remote ::
  "'doc platform \<Rightarrow> string \<Rightarrow> bytes \<Rightarrow> 'doc server \<Rightarrow> 'doc server outcome" where
  "apply_remote P room updateBuffer s =
     (case jsonUpdateObj P updateBuffer of
        Some updateObj \<Rightarrow>
          if js_truthy (Some updateObj) then Returns (applyJsonUpdate P room updateObj s)
          else applyUpdate P room updateBuffer s
      | None \<Rightarrow> applyUpdate P room updateBuffer s)"

definition after_remote :: "nat \<Rightarrow> string \<Rightarrow> json \<Rightarrow> 'doc server \<Rightarrow> 'doc server" where
  "after_remote now room message s1 =
     (let s2 = recordUpdate now room s1;
          s3 = s2\<lparr>updatesApplied := updatesApplied s2 + 1\<rparr>
      in broadcastToRoom room message None s3)"

definition handleRedisUpdate ::
  "'doc platform \<Rightarrow> string \<Rightarrow> nat \<Rightarrow> string \<Rightarrow> string \<Rightarrow> 'doc server \<Rightarrow> 'doc server" where
  "handleRedisUpdate P inst now room redisMessage s =
     (case jsonParse P redisMessage of
        None \<Rightarrow> s
      | Some JNull \<Rightarrow> s
      | Some update \<Rightarrow>
          if js_get update ''instanceId'' = Some (JStr inst) then s
          else (case js_get update ''update'' of
                  Some (JStr update_update) \<Rightarrow>
                    (case apply_remote P room (fromBase64 P update_update) s of
                       Throws s1 \<Rightarrow> s1
                     | Returns s1 \<Rightarrow>
                         after_remote now room
                           (relayed_message now room update update_update) s1)
                | _ \<Rightarrow> s))"

subsection \<open>Connections and inbound frames\<close>

text \<open>
  The data of a \<^verbatim>\<open>message\<close> event: a string, a \<^verbatim>\<open>Buffer\<close>, or one of the other forms
  of \<^verbatim>\<open>WebSocket.Data\<close> (an \<^verbatim>\<open>ArrayBuffer\<close> or a list of buffers).
\<close>

datatype Data = Text string | Binary bytes | OtherData

definition handleConnection :: "string \<Rightarrow> 'doc server \<Rightarrow> 'doc server" where
  "handleConnection clientId s =
     s\<lparr>clientConnections := (clientConnections s)(clientId \<mapsto> \<lparr>readyState = OPEN, sent = []\<rparr>),
       messagesProcessed := messagesProcessed s + 1\<rparr>"

text \<open>
  The routing of a decoded message. Reading \<^verbatim>\<open>message.type\<close> of \<^verbatim>\<open>null\<close> throws into
  the outer \<^verbatim>\<open>catch\<close> of \<^verbatim>\<open>handleMessage\<close>, after the message was counted.
\<close>

definition route ::
  "'doc platform \<Rightarrow> string \<Rightarrow> nat \<Rightarrow> bool \<Rightarrow> nat option \<Rightarrow> string \<Rightarrow> json \<Rightarrow> 'doc server
     \<Rightarrow> 'doc server" where
  "route P inst now sub_ok reply clientId message s =
     (let s1 = s\<lparr>messagesProcessed := messagesProcessed s + 1\<rparr> in
      if message = JNull then s1
      else let type = js_get message ''type'';
               s2 = (if type = Some (JStr (MessageType_value JOIN_ROOM))
                     then handleJoinRoom P inst now sub_ok clientId message s1
                     else if type = Some (JStr (MessageType_value LEAVE_ROOM))
                     then handleLeaveRoom now clientId message s1
                     else if type = Some (JStr (MessageType_value DOCUMENT_UPDATE))
                     then handleDocumentUpdate P inst now reply clientId message s1
                     else s1)
           in s2\<lparr>latenciesRecorded := latenciesRecorded s2 + 1\<rparr>)"

text \<open>
  The decoding of a frame by \<^verbatim>\<open>handleMessage\<close>: \<open>None\<close> where the source answers
  \<^verbatim>\<open>"Invalid message format"\<close>.
\<close>

definition decodeFrame :: "'doc platform \<Rightarrow> nat \<Rightarrow> string \<Rightarrow> Data \<Rightarrow> json option" where
  "decodeFrame P now clientId data =
     (case data of
        Text str \<Rightarrow> jsonParse P str
      | Binary buffer \<Rightarrow>
          if looksLikeJson buffer
          then (case jsonParse P (toStringUtf8 P buffer) of
                  Some message \<Rightarrow> Some message
                | None \<Rightarrow> decodeBinaryDocumentUpdate P now buffer (Some clientId))
          else decodeBinaryDocumentUpdate P now buffer (Some clientId)
      | OtherData \<Rightarrow> None)"

definition handleMessage ::
  "'doc platform \<Rightarrow> string \<Rightarrow> nat \<Rightarrow> bool \<Rightarrow> nat option \<Rightarrow> string \<Rightarrow> Data \<Rightarrow> 'doc server
     \<Rightarrow> 'doc server" where
  "handleMessage P inst now sub_ok reply clientId data s =
     (case clientConnections s clientId of
        None \<Rightarrow> s
      | Some ws \<Rightarrow>
          (case decodeFrame P now clientId data of
             None \<Rightarrow> sendError now clientId ''Invalid message format'' s
           | Some message \<Rightarrow> route P inst now sub_ok reply clientId message s))"

definition handleDisconnect :: "nat \<Rightarrow> string \<Rightarrow> 'doc server \<Rightarrow> 'doc server" where
  "handleDisconnect now clientId s =
     (let s1 = (case getClient clientId s of
                  None \<Rightarrow> s
                | Some client \<Rightarrow>
                    handleLeaveRoom now clientId
                      (JObj [(''type'', JStr (MessageType_value LEAVE_ROOM)),
                             (''roomId'', JStr (roomId client)),
                             (''timestamp'', JNum (int now))]) s)
      in s1\<lparr>clientConnections := (clientConnections s1)(clientId := None)\<rparr>)"

definition handleError :: "string \<Rightarrow> 'doc server \<Rightarrow> 'doc server" where
  "handleError clientId s = s\<lparr>connectionErrors := connectionErrors s + 1\<rparr>"

section \<open>Events of one instance\<close>

text \<open>
  What can happen to an instance: a socket is accepted under a new client id; a frame
  arrives on a socket; a socket starts closing; a socket has closed; a socket reports an
  error; the Redis client delivers a message on a channel, to every listener registered
  for that channel.
\<close>

datatype event =
    Connection string
  | Message string Data nat bool "nat option"
  | StartClosing string
  | Close string nat
  | SocketError string
  | Delivery string string nat

definition set_readyState :: "string \<Rightarrow> ReadyState \<Rightarrow> 'doc server \<Rightarrow> 'doc server" where
  "set_readyState clientId st s =
     (case clientConnections s clientId of
        None \<Rightarrow> s
      | Some ws \<Rightarrow> s\<lparr>clientConnections := (clientConnections s)(clientId \<mapsto> ws\<lparr>readyState := st\<rparr>)\<rparr>)"

definition deliver ::
  "'doc platform \<Rightarrow> string \<Rightarrow> nat \<Rightarrow> string \<Rightarrow> string \<Rightarrow> 'doc server \<Rightarrow> 'doc server" where
  "deliver P inst now channel redisMessage s =
     fold (\<lambda>(ch, room) s'.
             if ch = channel then handleRedisUpdate P inst now room redisMessage s' else s')
          (listeners s) s"

fun step :: "'doc platform \<Rightarrow> string \<Rightarrow> event \<Rightarrow> 'doc server \<Rightarrow> 'doc server" where
  "step P inst (Connection clientId) s = handleConnection clientId s"
| "step P inst (Message clientId data now sub_ok reply) s =
     handleMessage P inst now sub_ok reply clientId data s"
| "step P inst (StartClosing clientId) s = set_readyState clientId CLOSING s"
| "step P inst (Close clientId now) s =
     handleDisconnect now clientId (set_readyState clientId CLOSED s)"
| "step P inst (SocketError clientId) s = handleError clientId s"
| "step P inst (Delivery channel redisMessage now) s = deliver P inst now channel redisMessage s"

definition run :: "'doc platform \<Rightarrow> string \<Rightarrow> event list \<Rightarrow> 'doc server \<Rightarrow> 'doc server" where
  "run P inst events s = fold (step P inst) events s"

inductive reachable :: "'doc platform \<Rightarrow> string \<Rightarrow> 'doc server \<Rightarrow> bool"
  for P :: "'doc platform" and inst :: string where
  reachable_initial: "reachable P inst initial"
| reachable_step: "reachable P inst s \<Longrightarrow> reachable P inst (step P inst e s)"


section \<open>A reference platform\<close>

text \<open>
  One instance of the platform, on which the model can be evaluated: ASCII text for
  \<open>toStringUtf8\<close> (UTF-8 agrees with it on bytes below 128), standard padded Base64,
  \<^verbatim>\<open>JSON.parse\<close> on a table of texts (any other text counts as not parsing), and a small
  replicated document: a register whose merge keeps the largest number it was given,
  beside the fields set by patches. An update whose first byte is \<open>0xFF\<close> is rejected by
  the reference merge.
\<close>

definition ascii_text :: "bytes \<Rightarrow> string" where
  "ascii_text buffer = map (\<lambda>b. char_of (unat b)) buffer"

definition base64_alphabet :: string where
  "base64_alphabet = ''ABCDEFGHIJKLMNOPQRSTUVWXYZabcdefghijklmnopqrstuvwxyz0123456789+/''"

fun base64_encode :: "bytes \<Rightarrow> string" where
  "base64_encode [] = []"
| "base64_encode [a] =
     (let n = unat a * 65536
      in [base64_alphabet ! (n div 262144), base64_alphabet ! (n div 4096 mod 64),
          CHR ''='', CHR ''=''])"
| "base64_encode [a, b] =
     (let n = unat a * 65536 + unat b * 256
      in [base64_alphabet ! (n div 262144), base64_alphabet ! (n div 4096 mod 64),
          base64_alphabet ! (n div 64 mod 64), CHR ''=''])"
| "base64_encode (a # b # c # rest) =
     (let n = unat a * 65536 + unat b * 256 + unat c
      in [base64_alphabet ! (n div 262144), base64_alphabet ! (n div 4096 mod 64),
          base64_alphabet ! (n div 64 mod 64), base64_alphabet ! (n mod 64)]
         @ base64_encode rest)"

fun index_in :: "'a list \<Rightarrow> 'a \<Rightarrow> nat" where
  "index_in [] x = 0"
| "index_in (y # ys) x = (if x = y then 0 else Suc (index_in ys x))"

definition sextet :: "char \<Rightarrow> nat" where
  "sextet c = (if c = CHR ''='' then 0 else index_in base64_alphabet c)"

fun base64_decode :: "string \<Rightarrow> bytes" where
  "base64_decode (a # b # c # d # rest) =
     (let n = sextet a * 262144 + sextet b * 4096 + sextet c * 64 + sextet d
      in if c = CHR ''='' then [of_nat (n div 65536)]
         else if d = CHR ''='' then [of_nat (n div 65536), of_nat (n div 256 mod 256)]
         else [of_nat (n div 65536), of_nat (n div 256 mod 256), of_nat (n mod 256)]
              @ base64_decode rest)"
| "base64_decode _ = []"

definition join_text :: "string \<Rightarrow> string" where
  "join_text room = ''{\"type\":\"join-room\",\"roomId\":\"'' @ room @ ''\"}''"

definition join_value :: "string \<Rightarrow> json" where
  "join_value room = JObj [(''type'', JStr ''join-room''), (''roomId'', JStr room)]"

definition echo_text :: string where
  "echo_text =
     ''{\"type\":\"sync-update\",\"clientId\":\"c1\",\"update\":\"AQ==\",\"timestamp\":1,\"instanceId\":\"i1\"}''"

definition echo_value :: json where
  "echo_value =
     JObj [(''type'', JStr ''sync-update''), (''clientId'', JStr ''c1''),
           (''update'', JStr ''AQ==''), (''timestamp'', JNum 1), (''instanceId'', JStr ''i1'')]"

definition json_texts :: "(string \<times> json) list" where
  "json_texts =
     [(''{}'', JObj []),
      (''{\"title\":\"Doc\"}'', JObj [(''title'', JStr ''Doc'')]),
      (join_text ''r1'', join_value ''r1''),
      (join_text ''A'', join_value ''A''),
      (join_text ''B'', join_value ''B''),
      (echo_text, echo_value)]"

record ydoc =
  register :: nat
  state_fields :: "(string \<times> json) list"

definition ref_apply :: "ydoc \<Rightarrow> bytes \<Rightarrow> ydoc applied" where
  "ref_apply d update =
     (if take 1 update = [0xFF] then Threw d
      else Applied (d\<lparr>register := max (register d) (le_value update)\<rparr>))"

definition ref_encode :: "ydoc \<Rightarrow> bytes" where
  "ref_encode d = map (\<lambda>i. of_nat (register d div 256 ^ i mod 256)) [0, 1, 2, 3]"

definition ref_set :: "ydoc \<Rightarrow> string \<Rightarrow> json \<Rightarrow> ydoc" where
  "ref_set d key value =
     d\<lparr>state_fields := filter (\<lambda>(k, v). k \<noteq> key) (state_fields d) @ [(key, value)]\<rparr>"

definition refPlatform :: "ydoc platform" where
  "refPlatform =
     \<lparr>toStringUtf8 = ascii_text, jsonParse = map_of json_texts,
      fromBase64 = base64_decode, toBase64 = base64_encode,
      yNewDoc = \<lparr>register = 0, state_fields = []\<rparr>,
      yApplyUpdate = ref_apply, yEncodeStateAsUpdate = ref_encode, yMapSet = ref_set\<rparr>"


section \<open>The contract of the merge primitive\<close>

text \<open>
  The document after \<^verbatim>\<open>Y.applyUpdate\<close>, and a list of updates applied one after the
  other through \<^verbatim>\<open>CrdtService.applyUpdate\<close>; an update that makes the primitive throw is
  logged by the caller and the next one is taken up.
\<close>

definition merge :: "'doc platform \<Rightarrow> 'doc \<Rightarrow> bytes \<Rightarrow> 'doc" where
  "merge P d update = docAfter (yApplyUpdate P d update)"

definition applyUpdates ::
  "'doc platform \<Rightarrow> string \<Rightarrow> bytes list \<Rightarrow> 'doc server \<Rightarrow> 'doc server" where
  "applyUpdates P room updates s =
     fold (\<lambda>update s'. after (applyUpdate P room update s')) updates s"

text \<open>
  Modelled from the spec: the merge primitive itself (\<^verbatim>\<open>Y.applyUpdate\<close> of the Yjs
  library) is not part of the repository. Section 3 of the specification requires of it
  that merging is commutative, associative and idempotent: the same deltas, in any order
  and any number of times, give the same state. On a primitive that applies one delta to
  a document this is the exchange of two deltas and the absorption of a repeated one.
\<close>

definition crdt_contract :: "'doc platform \<Rightarrow> bool" where
  "crdt_contract P =
     ((\<forall>d u v. merge P (merge P d u) v = merge P (merge P d v) u) \<and>
      (\<forall>d u. merge P (merge P d u) u = merge P d u))"

definition doc_or_new :: "'doc platform \<Rightarrow> string \<Rightarrow> 'doc server \<Rightarrow> 'doc" where
  "doc_or_new P room s = (case documents s room of Some d \<Rightarrow> d | None \<Rightarrow> yNewDoc P)"

section \<open>The registry's invariant, and join and leave written out\<close>

text \<open>
  What holds of the registry and the document store between two events: a room has a
  record exactly when it has a member set; a room with a record has a document; the
  count of a room is the size of its member set; a member set lists no id twice; a
  client record is stored under its own id and its client is a member of the room the
  record names.
\<close>

definition registry_ok :: "'doc server \<Rightarrow> bool" where
  "registry_ok s =
     ((\<forall>r. (rooms s r = None) = (roomClients s r = None)) \<and>
      (\<forall>r. rooms s r \<noteq> None \<longrightarrow> documents s r \<noteq> None) \<and>
      (\<forall>r room members. rooms s r = Some room \<longrightarrow> roomClients s r = Some members \<longrightarrow>
         clientCount room = length members) \<and>
      (\<forall>r members. roomClients s r = Some members \<longrightarrow> distinct members) \<and>
      (\<forall>c client. clients s c = Some client \<longrightarrow>
         client_id client = c \<and>
         (\<exists>members. roomClients s (roomId client) = Some members \<and> c \<in> set members)))"

text \<open>
  The state after \<^verbatim>\<open>addClientToRoom\<close> and after \<^verbatim>\<open>removeClientFromRoom\<close>, written as one
  update of the state; the two agree with the operations wherever the invariant holds.
\<close>

definition joined :: "'doc platform \<Rightarrow> nat \<Rightarrow> string \<Rightarrow> string \<Rightarrow> string \<Rightarrow> 'doc server \<Rightarrow> 'doc server" where
  "joined P now c r i s =
     (let members = (case roomClients s r of None \<Rightarrow> [] | Some m \<Rightarrow> m);
          room = (case rooms s r of
                    None \<Rightarrow> \<lparr>room_id = r, createdAt = now, clientCount = 0,
                              updatesCount = 0, lastUpdateAt = None\<rparr>
                  | Some room \<Rightarrow> room)
      in s\<lparr>rooms := (rooms s)(r \<mapsto> room\<lparr>clientCount := length (set_add c members)\<rparr>),
           roomClients := (roomClients s)(r \<mapsto> set_add c members),
           clients := (clients s)(c \<mapsto>
              \<lparr>client_id = c, roomId = r, instanceId = i, joinedAt = now\<rparr>),
           documents := (documents s)(r \<mapsto> doc_or_new P r s)\<rparr>)"

definition left :: "string \<Rightarrow> 'doc server \<Rightarrow> 'doc server" where
  "left c s =
     (case clients s c of
        None \<Rightarrow> s
      | Some client \<Rightarrow>
          (case roomClients s (roomId client) of
             None \<Rightarrow> s\<lparr>clients := (clients s)(c := None)\<rparr>
           | Some members \<Rightarrow>
               if set_delete c members = []
               then s\<lparr>rooms := (rooms s)(roomId client := None),
                      roomClients := (roomClients s)(roomId client := None),
                      clients := (clients s)(c := None),
                      documents := (documents s)(roomId client := None)\<rparr>
               else s\<lparr>rooms := (rooms s)(roomId client :=
                         map_option (\<lambda>room. room\<lparr>clientCount := length (set_delete c members)\<rparr>)
                           (rooms s (roomId client))),
                      roomClients := (roomClients s)(roomId client \<mapsto> set_delete c members),
                      clients := (clients s)(c := None)\<rparr>))"

section \<open>Observations of a state\<close>

text \<open>
  The member list of a room (empty when the room has no member set), what has been sent
  to a client so far, and whether the client's socket is stored and open.
\<close>

definition members_of :: "'doc server \<Rightarrow> string \<Rightarrow> string list" where
  "members_of s room = (case roomClients s room of None \<Rightarrow> [] | Some members \<Rightarrow> members)"

definition outbox :: "'doc server \<Rightarrow> string \<Rightarrow> json list" where
  "outbox s c = (case clientConnections s c of None \<Rightarrow> [] | Some ws \<Rightarrow> sent ws)"

definition is_open :: "'doc server \<Rightarrow> string \<Rightarrow> bool" where
  "is_open s c = (case clientConnections s c of None \<Rightarrow> False | Some ws \<Rightarrow> readyState ws = OPEN)"

section \<open>Example frames and states\<close>


definition update_frame :: "byte \<Rightarrow> bytes \<Rightarrow> bytes" where
  "update_frame room update =
     [1, 1, 0, room, 0, 0, 0, 0, 0, 0, 0, 0, of_nat (length update), 0, 0, 0] @ update"

definition title_patch :: bytes where
  "title_patch =
     [0x7B, 0x22, 0x74, 0x69, 0x74, 0x6C, 0x65, 0x22, 0x3A, 0x22, 0x44, 0x6F, 0x63, 0x22, 0x7D]"

definition empty_patch :: bytes where
  "empty_patch = [0x7B, 0x7D]"

definition connected :: "ydoc server" where
  "connected = run refPlatform ''i1'' [Connection ''c1''] initial"

definition joined_r1 :: "ydoc server" where
  "joined_r1 = run refPlatform ''i1''
     [Connection ''c1'', Message ''c1'' (Text (join_text ''r1'')) 5 True None] initial"

definition edited_A :: "ydoc server" where
  "edited_A = run refPlatform ''i1''
     [Connection ''c1'', Message ''c1'' (Text (join_text ''A'')) 5 True None,
      Message ''c1'' (Binary (update_frame 0x41 title_patch)) 6 True (Some 0)] initial"

definition orphaned :: "ydoc server" where
  "orphaned = run refPlatform ''i1''
     [Connection ''c1'', Message ''c1'' (Binary (update_frame 0x78 empty_patch)) 5 True (Some 0)] initial"

definition two_rooms :: "ydoc server" where
  "two_rooms = run refPlatform ''i1''
     [Connection ''c1'', Message ''c1'' (Text (join_text ''A'')) 5 True None,
      Message ''c1'' (Text (join_text ''B'')) 6 True None] initial"

definition moved_on :: "ydoc server" where
  "moved_on = run refPlatform ''i1''
     [Connection ''c1'', Message ''c1'' (Text (join_text ''A'')) 5 True None,
      Message ''c1'' (Binary (update_frame 0x41 title_patch)) 6 True (Some 0),
      Message ''c1'' (Text (join_text ''B'')) 7 True None] initial"

text \<open>A \<^verbatim>\<open>DOCUMENT_UPDATE\<close> message for room \<open>r1\<close> with the given Base64 payload.\<close>

definition update_message_of :: "string \<Rightarrow> json" where
  "update_message_of u =
     JObj [(''type'', JStr ''document-update''), (''roomId'', JStr ''r1''),
           (''payload'', JObj [(''update'', JStr u)])]"

section \<open>Convergence of the merge path\<close>

lemma after_applyUpdate:
  "after (applyUpdate P room u s) =
     (if u = [] then s
      else s\<lparr>documents := (documents s)(room \<mapsto> merge P (doc_or_new P room s) u)\<rparr>)"
  by (auto simp: applyUpdate_def getOrCreateDocument_def merge_def doc_or_new_def
      split: option.splits applied.splits)

lemma doc_or_new_upd [simp]:
  "doc_or_new P room (s\<lparr>documents := (documents s)(room \<mapsto> d)\<rparr>) = d"
  by (simp add: doc_or_new_def)

lemma merge_step_commute:
  assumes "crdt_contract P"
  shows "after (applyUpdate P room u (after (applyUpdate P room v s))) =
         after (applyUpdate P room v (after (applyUpdate P room u s)))"
  using assms by (simp add: after_applyUpdate crdt_contract_def)

lemma merge_step_idem:
  assumes "crdt_contract P"
  shows "after (applyUpdate P room u (after (applyUpdate P room u s))) =
         after (applyUpdate P room u s)"
  using assms by (simp add: after_applyUpdate crdt_contract_def)

lemma merge_steps_idem_on:
  assumes "crdt_contract P"
  shows "comp_fun_idem_on UNIV (\<lambda>u s. after (applyUpdate P room u s))"
proof
  show "\<And>x y. x \<in> UNIV \<Longrightarrow> y \<in> UNIV \<Longrightarrow>
          (\<lambda>s. after (applyUpdate P room y s)) \<circ> (\<lambda>s. after (applyUpdate P room x s)) =
          (\<lambda>s. after (applyUpdate P room x s)) \<circ> (\<lambda>s. after (applyUpdate P room y s))"
    using merge_step_commute [OF assms] by (auto simp: fun_eq_iff)
  show "\<And>x. x \<in> UNIV \<Longrightarrow>
          (\<lambda>s. after (applyUpdate P room x s)) \<circ> (\<lambda>s. after (applyUpdate P room x s)) =
          (\<lambda>s. after (applyUpdate P room x s))"
    using merge_step_idem [OF assms] by (auto simp: fun_eq_iff)
qed

lemma applyUpdates_set:
  assumes "crdt_contract P" and "set us = set vs"
  shows "applyUpdates P room us s = applyUpdates P room vs s"
proof -
  let ?f = "\<lambda>u s. after (applyUpdate P room u s)"
  have "applyUpdates P room us s = Finite_Set.fold ?f s (set us)"
    unfolding applyUpdates_def
    by (rule comp_fun_idem_on.fold_set_fold [OF merge_steps_idem_on [OF assms(1)], symmetric])
      simp
  also have "\<dots> = Finite_Set.fold ?f s (set vs)"
    by (simp add: assms(2))
  also have "\<dots> = applyUpdates P room vs s"
    unfolding applyUpdates_def
    by (rule comp_fun_idem_on.fold_set_fold [OF merge_steps_idem_on [OF assms(1)]]) simp
  finally show ?thesis .
qed

lemma ref_contract: "crdt_contract refPlatform"
  by (auto simp: crdt_contract_def merge_def refPlatform_def ref_apply_def)

text \<open>
  C1. Given a merge primitive that meets its contract, two lists of binary merge updates
  with the same elements (one a permutation of the other, with any repetitions), applied
  through \<^verbatim>\<open>applyUpdate\<close> to the same document store, leave the same store, and
  \<^verbatim>\<open>getDocumentState\<close> returns the same encoded state; in particular from a store in
  which the room has no document yet.
\<close>

theorem C1_convergence:
  assumes "crdt_contract P" and "set us = set vs"
  shows "applyUpdates P room us s = applyUpdates P room vs s \<and>
         fst (getDocumentState P room (applyUpdates P room us s)) =
         fst (getDocumentState P room (applyUpdates P room vs s))"
  using applyUpdates_set [OF assms] by simp


theorem C1_convergence_witness:
  "crdt_contract refPlatform \<and> set [[1], [2 :: byte]] = set [[2], [1], [2]] \<and>
   fst (getDocumentState refPlatform ''r1''
          (applyUpdates refPlatform ''r1'' [[1], [2]] initial)) = [2, 0, 0, 0] \<and>
   fst (getDocumentState refPlatform ''r1''
          (applyUpdates refPlatform ''r1'' [[2], [1], [2]] initial)) = [2, 0, 0, 0]"
proof -
  have c: "crdt_contract refPlatform" by (rule ref_contract)
  have e: "set [[1], [2 :: byte]] = set [[2], [1], [2]]" by auto
  have v: "fst (getDocumentState refPlatform ''r1''
                  (applyUpdates refPlatform ''r1'' [[1], [2]] initial)) = [2, 0, 0, 0]"
    by (simp add: applyUpdates_def after_applyUpdate initial_def doc_or_new_def
        refPlatform_def merge_def ref_apply_def getDocumentState_def
        getOrCreateDocument_def ref_encode_def)
  from C1_convergence [OF c e, of "''r1''" initial] c e v show ?thesis by simp
qed


section \<open>The invariant is kept by every event\<close>

lemma registry_okI:
  assumes "\<And>r. (rooms s r = None) = (roomClients s r = None)"
    and "\<And>r room. rooms s r = Some room \<Longrightarrow> documents s r \<noteq> None"
    and "\<And>r room members. rooms s r = Some room \<Longrightarrow> roomClients s r = Some members \<Longrightarrow>
           clientCount room = length members"
    and "\<And>r members. roomClients s r = Some members \<Longrightarrow> distinct members"
    and "\<And>c client. clients s c = Some client \<Longrightarrow> client_id client = c"
    and "\<And>c client. clients s c = Some client \<Longrightarrow>
           \<exists>members. roomClients s (roomId client) = Some members \<and> c \<in> set members"
  shows "registry_ok s"
  unfolding registry_ok_def
proof (intro conjI allI impI)
  fix r show "(rooms s r = None) = (roomClients s r = None)" by (rule assms(1))
next
  fix r assume "rooms s r \<noteq> None"
  then obtain room where "rooms s r = Some room" by auto
  then show "documents s r \<noteq> None" by (rule assms(2))
qed (blast intro: assms(3-6))+

lemma ok_dom: "registry_ok s \<Longrightarrow> (rooms s r = None) = (roomClients s r = None)"
  by (simp add: registry_ok_def)

lemma ok_doc: "registry_ok s \<Longrightarrow> rooms s r = Some room \<Longrightarrow> documents s r \<noteq> None"
  by (auto simp: registry_ok_def)

lemma ok_count:
  "registry_ok s \<Longrightarrow> rooms s r = Some room \<Longrightarrow> roomClients s r = Some members \<Longrightarrow>
   clientCount room = length members"
  unfolding registry_ok_def by blast

lemma ok_distinct: "registry_ok s \<Longrightarrow> roomClients s r = Some members \<Longrightarrow> distinct members"
  unfolding registry_ok_def by blast

lemma ok_client_id: "registry_ok s \<Longrightarrow> clients s c = Some client \<Longrightarrow> client_id client = c"
  unfolding registry_ok_def by blast

lemma ok_client_member:
  "registry_ok s \<Longrightarrow> clients s c = Some client \<Longrightarrow>
   \<exists>members. roomClients s (roomId client) = Some members \<and> c \<in> set members"
  unfolding registry_ok_def by blast

lemma server_eqI:
  "rooms a = rooms b \<Longrightarrow> roomClients a = roomClients b \<Longrightarrow> clients a = clients b \<Longrightarrow>
   documents a = documents b \<Longrightarrow> subscriptions a = subscriptions b \<Longrightarrow>
   listeners a = listeners b \<Longrightarrow> published a = published b \<Longrightarrow>
   clientConnections a = clientConnections b \<Longrightarrow> messagesProcessed a = messagesProcessed b \<Longrightarrow>
   updatesApplied a = updatesApplied b \<Longrightarrow> connectionErrors a = connectionErrors b \<Longrightarrow>
   latenciesRecorded a = latenciesRecorded b \<Longrightarrow> a = (b :: 'doc server)"
  by simp

lemma addClientToRoom_joined:
  assumes "registry_ok s"
  shows "addClientToRoom P now c r i s = Returns (joined P now c r i s)"
proof (cases "rooms s r")
  case None
  then have "roomClients s r = None" using ok_dom [OF assms] by simp
  with None show ?thesis
    by (auto simp: addClientToRoom_def getOrCreateRoom_def getOrCreateDocument_def joined_def
        doc_or_new_def Let_def set_add_def fun_upd_twist split: option.splits intro!: server_eqI)
next
  case (Some room)
  then obtain m where m: "roomClients s r = Some m"
    using ok_dom [OF assms, of r] by auto
  obtain d where d: "documents s r = Some d" using ok_doc [OF assms Some] by auto
  have "(documents s)(r \<mapsto> d) = documents s" using d by (auto simp: fun_eq_iff)
  with Some m d show ?thesis
    by (auto simp: addClientToRoom_def getOrCreateRoom_def joined_def doc_or_new_def Let_def
        intro!: server_eqI)
qed

lemma registry_ok_joined:
  assumes "registry_ok s"
  shows "registry_ok (joined P now c r i s)"
proof (rule registry_okI)
  fix r' show "(rooms (joined P now c r i s) r' = None) = (roomClients (joined P now c r i s) r' = None)"
    using ok_dom [OF assms, of r'] by (simp add: joined_def Let_def)
next
  fix r' room assume "rooms (joined P now c r i s) r' = Some room"
  then show "documents (joined P now c r i s) r' \<noteq> None"
    using ok_doc [OF assms, of r'] by (auto simp: joined_def Let_def split: if_splits)
next
  fix r' room members
  assume "rooms (joined P now c r i s) r' = Some room" "roomClients (joined P now c r i s) r' = Some members"
  then show "clientCount room = length members"
    using ok_count [OF assms, of r'] by (auto simp: joined_def Let_def split: if_splits)
next
  fix r' members assume "roomClients (joined P now c r i s) r' = Some members"
  then show "distinct members"
    using ok_distinct [OF assms, of r'] ok_distinct [OF assms, of r]
    by (auto simp: joined_def Let_def set_add_def split: if_splits option.splits)
next
  fix c' client assume "clients (joined P now c r i s) c' = Some client"
  then show "client_id client = c'"
    using ok_client_id [OF assms, of c'] by (auto simp: joined_def Let_def split: if_splits)
next
  fix c' client assume "clients (joined P now c r i s) c' = Some client"
  then show "\<exists>members. roomClients (joined P now c r i s) (roomId client) = Some members \<and> c' \<in> set members"
    using ok_client_member [OF assms, of c']
    by (auto simp: joined_def Let_def set_add_def split: if_splits option.splits)
qed

lemma removeClientFromRoom_left:
  assumes "registry_ok s"
  shows "removeClientFromRoom c s = left c s"
proof (cases "clients s c")
  case None
  then show ?thesis by (simp add: removeClientFromRoom_def left_def)
next
  case (Some client)
  obtain members where m: "roomClients s (roomId client) = Some members"
    using ok_client_member [OF assms Some] by auto
  then obtain room where r: "rooms s (roomId client) = Some room"
    using ok_dom [OF assms, of "roomId client"] by auto
  show ?thesis
    using Some m r
    by (auto simp: removeClientFromRoom_def left_def Let_def deleteRoom_def deleteDocument_def
        getDocument_def fun_upd_twist split: option.splits intro!: server_eqI)
qed

lemma registry_ok_left:
  assumes "registry_ok s"
  shows "registry_ok (left c s)"
proof (cases "clients s c")
  case None
  then show ?thesis using assms by (simp add: left_def)
next
  case (Some client)
  obtain members where m: "roomClients s (roomId client) = Some members" and cm: "c \<in> set members"
    using ok_client_member [OF assms Some] by auto
  then obtain room where r: "rooms s (roomId client) = Some room"
    using ok_dom [OF assms, of "roomId client"] by auto
  have dm: "distinct members" using ok_distinct [OF assms m] .
  show ?thesis
  proof (cases "set_delete c members = []")
    case True
    then have "set (set_delete c members) = {}" by simp
    then have only: "set members \<subseteq> {c}" by (auto simp: set_delete_def)
    have L: "left c s = s\<lparr>rooms := (rooms s)(roomId client := None),
                      roomClients := (roomClients s)(roomId client := None),
                      clients := (clients s)(c := None),
                      documents := (documents s)(roomId client := None)\<rparr>"
      using Some m True by (simp add: left_def)
    show ?thesis unfolding L
    proof (rule registry_okI)
      fix c' cl assume a: "clients (s\<lparr>rooms := (rooms s)(roomId client := None),
                      roomClients := (roomClients s)(roomId client := None),
                      clients := (clients s)(c := None),
                      documents := (documents s)(roomId client := None)\<rparr>) c' = Some cl"
      then have c': "c' \<noteq> c" and cl: "clients s c' = Some cl" by (auto split: if_splits)
      from ok_client_member [OF assms cl] obtain ms where ms: "roomClients s (roomId cl) = Some ms" "c' \<in> set ms" by auto
      have "roomId cl \<noteq> roomId client"
      proof
        assume "roomId cl = roomId client"
        with ms m have "c' \<in> set members" by simp
        with only c' show False by auto
      qed
      with ms show "\<exists>members. roomClients (s\<lparr>rooms := (rooms s)(roomId client := None),
                      roomClients := (roomClients s)(roomId client := None),
                      clients := (clients s)(c := None),
                      documents := (documents s)(roomId client := None)\<rparr>) (roomId cl) = Some members \<and> c' \<in> set members"
        by simp
    qed (use assms in \<open>auto simp: registry_ok_def split: if_splits\<close>)
  next
    case False
    have L: "left c s = s\<lparr>rooms := (rooms s)(roomId client \<mapsto> room\<lparr>clientCount := length (set_delete c members)\<rparr>),
                      roomClients := (roomClients s)(roomId client \<mapsto> set_delete c members),
                      clients := (clients s)(c := None)\<rparr>"
      using Some m r False by (simp add: left_def)
    show ?thesis unfolding L
    proof (rule registry_okI)
      fix c' cl assume a: "clients (s\<lparr>rooms := (rooms s)(roomId client \<mapsto> room\<lparr>clientCount := length (set_delete c members)\<rparr>),
                      roomClients := (roomClients s)(roomId client \<mapsto> set_delete c members),
                      clients := (clients s)(c := None)\<rparr>) c' = Some cl"
      then have c': "c' \<noteq> c" and cl: "clients s c' = Some cl" by (auto split: if_splits)
      from ok_client_member [OF assms cl] obtain ms where ms: "roomClients s (roomId cl) = Some ms" "c' \<in> set ms" by auto
      then show "\<exists>members'. roomClients (s\<lparr>rooms := (rooms s)(roomId client \<mapsto> room\<lparr>clientCount := length (set_delete c members)\<rparr>),
                      roomClients := (roomClients s)(roomId client \<mapsto> set_delete c members),
                      clients := (clients s)(c := None)\<rparr>) (roomId cl) = Some members' \<and> c' \<in> set members'"
        using c' m by (auto simp: set_delete_def)
    qed (use assms dm m r ok_doc [OF assms r] in \<open>auto simp: registry_ok_def set_delete_def distinct_removeAll split: if_splits\<close>)
  qed
qed

lemma registry_ok_frame [simp]:
  "registry_ok (s\<lparr>subscriptions := a\<rparr>) = registry_ok s"
  "registry_ok (s\<lparr>listeners := b\<rparr>) = registry_ok s"
  "registry_ok (s\<lparr>published := c\<rparr>) = registry_ok s"
  "registry_ok (s\<lparr>clientConnections := d\<rparr>) = registry_ok s"
  "registry_ok (s\<lparr>messagesProcessed := e\<rparr>) = registry_ok s"
  "registry_ok (s\<lparr>updatesApplied := f\<rparr>) = registry_ok s"
  "registry_ok (s\<lparr>connectionErrors := g\<rparr>) = registry_ok s"
  "registry_ok (s\<lparr>latenciesRecorded := h\<rparr>) = registry_ok s"
  by (simp_all add: registry_ok_def)

lemma registry_ok_send_to [simp]: "registry_ok (send_to c m s) = registry_ok s"
  by (simp add: send_to_def split: option.splits)

lemma registry_ok_sendError [simp]: "registry_ok (sendError now c m s) = registry_ok s"
  by (simp add: sendError_def)

lemma fold_keeps:
  assumes "\<And>x s. g (f x s) = g s"
  shows "g (fold f xs s) = g s"
  by (induction xs arbitrary: s) (simp_all add: assms)

lemma registry_ok_broadcast [simp]: "registry_ok (broadcastToRoom r m e s) = registry_ok s"
  unfolding broadcastToRoom_def by (rule fold_keeps) simp

lemma registry_ok_initial: "registry_ok initial"
  by (simp add: registry_ok_def initial_def)

lemma registry_ok_applyJsonUpdate:
  "registry_ok s \<Longrightarrow> registry_ok (applyJsonUpdate P r obj s)"
  by (auto simp: registry_ok_def applyJsonUpdate_def getOrCreateDocument_def Let_def split: option.splits)

lemma registry_ok_applyUpdate:
  "registry_ok s \<Longrightarrow> registry_ok (after (applyUpdate P r u s))"
  by (auto simp: registry_ok_def after_applyUpdate)

lemma registry_ok_rooms_upd:
  assumes "registry_ok s" and "rooms s r = Some room" and "clientCount room' = clientCount room"
  shows "registry_ok (s\<lparr>rooms := (rooms s)(r \<mapsto> room')\<rparr>)"
proof (rule registry_okI)
  fix r' show "(rooms (s\<lparr>rooms := (rooms s)(r \<mapsto> room')\<rparr>) r' = None) =
               (roomClients (s\<lparr>rooms := (rooms s)(r \<mapsto> room')\<rparr>) r' = None)"
    using ok_dom [OF assms(1), of r'] assms(2) by auto
next
  fix r' x assume "rooms (s\<lparr>rooms := (rooms s)(r \<mapsto> room')\<rparr>) r' = Some x"
  then show "documents (s\<lparr>rooms := (rooms s)(r \<mapsto> room')\<rparr>) r' \<noteq> None"
    using ok_doc [OF assms(1), of r'] assms(2) by (auto split: if_splits)
next
  fix r' x members
  assume "rooms (s\<lparr>rooms := (rooms s)(r \<mapsto> room')\<rparr>) r' = Some x"
    "roomClients (s\<lparr>rooms := (rooms s)(r \<mapsto> room')\<rparr>) r' = Some members"
  then show "clientCount x = length members"
    using ok_count [OF assms(1), of r'] assms(2,3) by (auto split: if_splits)
next
  fix r' members assume "roomClients (s\<lparr>rooms := (rooms s)(r \<mapsto> room')\<rparr>) r' = Some members"
  then show "distinct members" using ok_distinct [OF assms(1), of r'] by simp
next
  fix c client assume "clients (s\<lparr>rooms := (rooms s)(r \<mapsto> room')\<rparr>) c = Some client"
  then show "client_id client = c" using ok_client_id [OF assms(1), of c] by simp
next
  fix c client assume "clients (s\<lparr>rooms := (rooms s)(r \<mapsto> room')\<rparr>) c = Some client"
  then show "\<exists>members. roomClients (s\<lparr>rooms := (rooms s)(r \<mapsto> room')\<rparr>) (roomId client) = Some members \<and> c \<in> set members"
    using ok_client_member [OF assms(1), of c] by simp
qed

lemma registry_ok_recordUpdate:
  assumes "registry_ok s"
  shows "registry_ok (recordUpdate now r s)"
proof (cases "rooms s r")
  case None
  then show ?thesis using assms by (simp add: recordUpdate_def)
next
  case (Some room)
  then show ?thesis
    using registry_ok_rooms_upd [OF assms Some, of "room\<lparr>updatesCount := updatesCount room + 1,
                                            lastUpdateAt := Some now\<rparr>"]
    by (simp add: recordUpdate_def)
qed

lemma registry_ok_getDocumentState:
  "registry_ok s \<Longrightarrow> registry_ok (snd (getDocumentState P r s))"
  by (auto simp: registry_ok_def getDocumentState_def getOrCreateDocument_def split: option.splits)

lemma registry_ok_subscribe [simp]:
  "registry_ok (after (subscribe ch cb ok s)) = registry_ok s"
  by (simp add: subscribe_def Let_def)

lemma registry_ok_publish [simp]:
  "registry_ok (after (publish ch m reply s)) = registry_ok s"
  by (simp add: publish_def split: option.splits)

lemma registry_ok_handleJoinRoom:
  assumes "registry_ok s"
  shows "registry_ok (handleJoinRoom P inst now sub_ok c m s)"
proof -
  have j: "registry_ok (snd (getDocumentState P (roomId_of m) (joined P now c (roomId_of m) inst s)))"
    by (rule registry_ok_getDocumentState [OF registry_ok_joined [OF assms]])
  have s: "\<And>ch cb t. registry_ok (case subscribe ch cb sub_ok t of Returns s6 \<Rightarrow> s6
             | Throws s6 \<Rightarrow> sendError now c ''Failed to subscribe to room updates'' s6) = registry_ok t"
    by (simp add: subscribe_def Let_def)
  show ?thesis
    using assms j
    by (simp add: handleJoinRoom_def Let_def addClientToRoom_joined [OF assms] s case_prod_unfold)
qed

lemma registry_ok_handleLeaveRoom:
  assumes "registry_ok s"
  shows "registry_ok (handleLeaveRoom now c m s)"
  using assms registry_ok_left [OF assms, of c]
  by (simp add: handleLeaveRoom_def Let_def removeClientFromRoom_left [OF assms])

lemma registry_ok_after_apply:
  "registry_ok s \<Longrightarrow> registry_ok (after_apply inst now reply c r u s)"
  by (simp add: after_apply_def Let_def registry_ok_recordUpdate)

lemma registry_ok_handleDocumentUpdate:
  assumes "registry_ok s"
  shows "registry_ok (handleDocumentUpdate P inst now reply c m s)"
proof -
  have a: "registry_ok (case t of Throws s1 \<Rightarrow> s1
             | Returns s1 \<Rightarrow> after_apply inst now reply c r u s1)"
    if "registry_ok (after t)" for t r u
    using that by (cases t) (simp_all add: registry_ok_after_apply)
  show ?thesis
    using assms
    by (auto simp: handleDocumentUpdate_def Let_def registry_ok_after_apply
        registry_ok_applyJsonUpdate registry_ok_applyUpdate
        split: option.splits json.splits path.splits intro!: a)
qed

lemma registry_ok_apply_remote:
  "registry_ok s \<Longrightarrow> registry_ok (after (apply_remote P r u s))"
  by (simp add: apply_remote_def registry_ok_applyUpdate registry_ok_applyJsonUpdate
      split: option.splits)

lemma registry_ok_after_remote:
  "registry_ok s \<Longrightarrow> registry_ok (after_remote now r m s)"
  by (simp add: after_remote_def Let_def registry_ok_recordUpdate)

lemma registry_ok_handleRedisUpdate:
  assumes "registry_ok s"
  shows "registry_ok (handleRedisUpdate P inst now r redisMessage s)"
proof -
  have b: "registry_ok (case t of Throws s1 \<Rightarrow> s1 | Returns s1 \<Rightarrow> after_remote now r msg s1)"
    if "registry_ok (after t)" for t msg
    using that by (cases t) (simp_all add: registry_ok_after_remote)
  show ?thesis
    using assms
    by (auto simp: handleRedisUpdate_def registry_ok_apply_remote
        split: option.splits json.splits intro!: b)
qed

lemma registry_ok_step:
  assumes "registry_ok s"
  shows "registry_ok (step P inst e s)"
proof (cases e)
  case (Connection c)
  then show ?thesis using assms by (simp add: handleConnection_def)
next
  case (Message c data now sub_ok reply)
  then show ?thesis
    using assms
    by (auto simp: handleMessage_def route_def Let_def registry_ok_handleJoinRoom
        registry_ok_handleLeaveRoom registry_ok_handleDocumentUpdate split: option.splits)
next
  case (StartClosing c)
  then show ?thesis using assms by (simp add: set_readyState_def split: option.splits)
next
  case (Close c now)
  have "registry_ok (set_readyState c CLOSED s)"
    using assms by (simp add: set_readyState_def split: option.splits)
  then show ?thesis
    using Close by (simp add: handleDisconnect_def Let_def registry_ok_handleLeaveRoom split: option.splits)
next
  case (SocketError c)
  then show ?thesis using assms by (simp add: handleError_def)
next
  case (Delivery channel msg now)
  have "registry_ok (fold (\<lambda>(ch, room) s'. if ch = channel then handleRedisUpdate P inst now room msg s' else s') xs t)"
    if "registry_ok t" for xs t
    using that by (induction xs arbitrary: t) (auto simp: registry_ok_handleRedisUpdate)
  then show ?thesis using Delivery assms by (simp add: deliver_def)
qed

lemma reachable_registry_ok: "reachable P inst s \<Longrightarrow> registry_ok s"
  by (induction rule: reachable.induct) (simp_all add: registry_ok_initial registry_ok_step)

section \<open>Frames, sending and the outbox\<close>

lemma strip_prefix_shorter: "strip_prefix p bs = Some rest \<Longrightarrow> length rest + length p = length bs"
  by (induction p bs rule: strip_prefix.induct) (auto split: if_splits)

lemma strip_white_space_shorter:
  "strip_white_space ws bs = Some rest \<Longrightarrow> [] \<notin> set ws \<Longrightarrow> length rest < length bs"
proof (induction ws)
  case Nil
  then show ?case by simp
next
  case (Cons w ws)
  show ?case
  proof (cases "strip_prefix w bs")
    case None
    with Cons show ?thesis by simp
  next
    case (Some r)
    with Cons.prems have "r = rest" and "w \<noteq> []" by auto
    with strip_prefix_shorter [OF Some] show ?thesis by (cases w) auto
  qed
qed

text \<open>
  The fuel of \<open>trimStart\<close> suffices: what \<open>looksLikeJson\<close> inspects begins with no white
  space.
\<close>

lemma trimStart_complete:
  "length bs \<le> fuel \<Longrightarrow> strip_white_space white_space_encodings (trimStart fuel bs) = None"
proof (induction fuel arbitrary: bs)
  case 0
  then show ?case by (simp add: white_space_encodings_def)
next
  case (Suc fuel)
  show ?case
  proof (cases "strip_white_space white_space_encodings bs")
    case None
    then show ?thesis by simp
  next
    case (Some rest)
    have "[] \<notin> set white_space_encodings" by (simp add: white_space_encodings_def)
    from strip_white_space_shorter [OF Some this] Suc.prems have "length rest \<le> fuel" by simp
    from Suc.IH [OF this] Some show ?thesis by simp
  qed
qed

lemma kind_byte_not_json: "looksLikeJson (1 # rest) = False"
  by (simp add: looksLikeJson_def white_space_encodings_def)





lemma reachable_run: "reachable P inst s \<Longrightarrow> reachable P inst (run P inst events s)"
proof (induction events arbitrary: s)
  case Nil
  then show ?case by (simp add: run_def)
next
  case (Cons e events)
  from Cons.IH [OF reachable_step [OF Cons.prems, of e]] show ?case by (simp add: run_def)
qed

lemma bus_send_to [simp]:
  "subscriptions (send_to c m s) = subscriptions s" "listeners (send_to c m s) = listeners s"
  by (simp_all add: send_to_def split: option.splits)

lemma bus_broadcast [simp]:
  "subscriptions (broadcastToRoom r m e s) = subscriptions s"
  "listeners (broadcastToRoom r m e s) = listeners s"
  unfolding broadcastToRoom_def by (rule fold_keeps, simp)+

lemma bus_addClientToRoom [simp]:
  "subscriptions (after (addClientToRoom P now c r i s)) = subscriptions s"
  "listeners (after (addClientToRoom P now c r i s)) = listeners s"
  by (simp_all add: addClientToRoom_def getOrCreateRoom_def getOrCreateDocument_def Let_def
      split: option.splits)

lemma bus_getDocumentState [simp]:
  "subscriptions (snd (getDocumentState P r s)) = subscriptions s"
  "listeners (snd (getDocumentState P r s)) = listeners s"
  by (simp_all add: getDocumentState_def getOrCreateDocument_def split: option.splits)

lemma is_open_send_to [simp]: "is_open (send_to c' m s) c = is_open s c"
  by (simp add: is_open_def send_to_def ws_send_def split: option.splits)

lemma outbox_send_to_self: "is_open s c \<Longrightarrow> outbox (send_to c m s) c = outbox s c @ [m]"
  by (auto simp: is_open_def outbox_def send_to_def ws_send_def split: option.splits)

lemma members_send_to [simp]:
  "clients (send_to c m s) = clients s" "roomClients (send_to c m s) = roomClients s"
  by (simp_all add: send_to_def split: option.splits)

lemma members_broadcast [simp]:
  "clients (broadcastToRoom r m e s) = clients s"
  "roomClients (broadcastToRoom r m e s) = roomClients s"
  unfolding broadcastToRoom_def by (rule fold_keeps, simp)+

lemma outbox_send_to_grows: "\<exists>extra. outbox (send_to c' m s) c = outbox s c @ extra"
  by (simp add: outbox_def send_to_def ws_send_def split: option.splits)

lemma broadcast_open_grows:
  "is_open (broadcastToRoom r m e s) c = is_open s c \<and>
   (\<exists>extra. outbox (broadcastToRoom r m e s) c = outbox s c @ extra)"
proof -
  have "is_open (fold (\<lambda>client s'. if excluded e client then s'
                         else send_to (client_id client) m s') xs t) c = is_open t c \<and>
        (\<exists>extra. outbox (fold (\<lambda>client s'. if excluded e client then s'
                         else send_to (client_id client) m s') xs t) c = outbox t c @ extra)"
    for xs t
  proof (induction xs arbitrary: t)
    case Nil
    then show ?case by simp
  next
    case (Cons x xs)
    show ?case
    proof (cases "excluded e x")
      case True
      then show ?thesis using Cons.IH [of t] by simp
    next
      case False
      obtain e1 where e1: "outbox (send_to (client_id x) m t) c = outbox t c @ e1"
        using outbox_send_to_grows by blast
      from Cons.IH [of "send_to (client_id x) m t"] False e1 show ?thesis by auto
    qed
  qed
  then show ?thesis by (simp add: broadcastToRoom_def)
qed

lemma open_outbox_frame [simp]:
  "is_open (s\<lparr>subscriptions := a\<rparr>) c = is_open s c"
  "is_open (s\<lparr>listeners := b\<rparr>) c = is_open s c"
  "is_open (s\<lparr>messagesProcessed := e\<rparr>) c = is_open s c"
  "is_open (s\<lparr>latenciesRecorded := h\<rparr>) c = is_open s c"
  "outbox (s\<lparr>subscriptions := a\<rparr>) c = outbox s c"
  "outbox (s\<lparr>listeners := b\<rparr>) c = outbox s c"
  "outbox (s\<lparr>messagesProcessed := e\<rparr>) c = outbox s c"
  "outbox (s\<lparr>latenciesRecorded := h\<rparr>) c = outbox s c"
  by (simp_all add: is_open_def outbox_def)

lemma joined_connections [simp]:
  "clientConnections (joined P now c r i s) = clientConnections s"
  by (simp add: joined_def Let_def)

lemma handleJoinRoom_succeeds:
  assumes "registry_ok s" and "is_open s c" and "roomId_of message = room" and "room \<noteq> []"
  shows "clients (handleJoinRoom P inst now sub_ok c message s) c =
           Some \<lparr>client_id = c, roomId = room, instanceId = inst, joinedAt = now\<rparr> \<and>
         c \<in> set (members_of (handleJoinRoom P inst now sub_ok c message s) room) \<and>
         is_open (handleJoinRoom P inst now sub_ok c message s) c \<and>
         (\<exists>extra. outbox (handleJoinRoom P inst now sub_ok c message s) c =
            outbox s c @ [state_message P now room c (yEncodeStateAsUpdate P (doc_or_new P room s)),
                          joined_ack now room c] @ extra)"
proof -
  let ?j = "joined P now c room inst s"
  let ?st = "state_message P now room c (yEncodeStateAsUpdate P (doc_or_new P room s))"
  have g: "getDocumentState P room ?j = (yEncodeStateAsUpdate P (doc_or_new P room s), ?j)"
    by (simp add: getDocumentState_def getOrCreateDocument_def joined_def Let_def)
  let ?s4 = "send_to c (joined_ack now room c) (send_to c ?st ?j)"
  let ?s5 = "broadcastToRoom room (joined_notice now room c) (Some c) ?s4"
  have oj: "is_open ?j c" "outbox ?j c = outbox s c"
    using assms(2) by (simp_all add: is_open_def outbox_def)
  have o4: "is_open ?s4 c" "outbox ?s4 c = outbox s c @ [?st, joined_ack now room c]"
    using oj by (simp_all add: outbox_send_to_self)
  obtain e5 where o5: "is_open ?s5 c" "outbox ?s5 c = outbox ?s4 c @ e5"
    using broadcast_open_grows [of room "joined_notice now room c" "Some c" ?s4 c] o4(1) by auto
  have reg: "clients ?s5 = clients ?j" "roomClients ?s5 = roomClients ?j"
    by simp_all
  have H: "handleJoinRoom P inst now sub_ok c message s =
           (if \<not> subscribedChannels_includes ?s5 (channel_of room)
            then (case subscribe (channel_of room) room sub_ok ?s5 of
                    Returns s6 \<Rightarrow> s6
                  | Throws s6 \<Rightarrow> sendError now c ''Failed to subscribe to room updates'' s6)
            else ?s5)"
    using assms(3,4) by (simp add: handleJoinRoom_def Let_def addClientToRoom_joined [OF assms(1)] g)
  have cj: "clients ?j c = Some \<lparr>client_id = c, roomId = room, instanceId = inst, joinedAt = now\<rparr>"
    "c \<in> set (members_of ?j room)"
    by (simp_all add: joined_def Let_def members_of_def set_add_def)
  let ?F = "handleJoinRoom P inst now sub_ok c message s"
  have tail: "is_open ?F c = is_open ?s5 c \<and> (\<exists>e. outbox ?F c = outbox ?s5 c @ e) \<and>
              clients ?F = clients ?s5 \<and> roomClients ?F = roomClients ?s5"
  proof (cases "subscribedChannels_includes ?s5 (channel_of room)")
    case True
    then show ?thesis by (simp add: H)
  next
    case False
    show ?thesis
    proof (cases sub_ok)
      case True
      with False H show ?thesis by (simp add: subscribe_def Let_def)
    next
      case no: False
      let ?t = "?s5\<lparr>subscriptions := (subscriptions ?s5)(channel_of room \<mapsto> room)\<rparr>"
      have F: "?F = send_to c (error_message now ''Failed to subscribe to room updates'') ?t"
        using False no H by (simp add: subscribe_def Let_def sendError_def)
      obtain e6 where "outbox (send_to c (error_message now ''Failed to subscribe to room updates'') ?t) c
                       = outbox ?t c @ e6"
        using outbox_send_to_grows by blast
      then show ?thesis unfolding F by simp
    qed
  qed
  then obtain e where e: "outbox ?F c = outbox ?s5 c @ e" by blast
  from tail o5 o4 reg cj e show ?thesis by (simp add: members_of_def)
qed

section \<open>The example states, evaluated\<close>

lemma ref_simps [simp]:
  "toStringUtf8 refPlatform = ascii_text" "jsonParse refPlatform = map_of json_texts"
  "fromBase64 refPlatform = base64_decode" "toBase64 refPlatform = base64_encode"
  "yNewDoc refPlatform = \<lparr>register = 0, state_fields = []\<rparr>"
  "yApplyUpdate refPlatform = ref_apply" "yEncodeStateAsUpdate refPlatform = ref_encode"
  "yMapSet refPlatform = ref_set"
  by (simp_all add: refPlatform_def)

lemma parse_join [simp]:
  "map_of json_texts (join_text ''r1'') = Some (join_value ''r1'')"
  "map_of json_texts (join_text ''A'') = Some (join_value ''A'')"
  "map_of json_texts (join_text ''B'') = Some (join_value ''B'')"
  by (simp_all add: json_texts_def echo_text_def join_text_def)

lemma parse_echo [simp]: "map_of json_texts echo_text = Some echo_value"
  by (simp add: json_texts_def echo_text_def join_text_def)

lemma parse_bad [simp]: "map_of json_texts ''{not json'' = None"
  by (simp add: json_texts_def echo_text_def join_text_def)

lemmas handler_defs = run_def handleConnection_def handleMessage_def decodeFrame_def route_def
  handleJoinRoom_def handleLeaveRoom_def handleDocumentUpdate_def roomId_of_def
  addClientToRoom_def getOrCreateRoom_def getOrCreateDocument_def getDocumentState_def
  set_add_def send_to_def ws_send_def sendError_def broadcastToRoom_def getClientsInRoom_def
  excluded_def subscribedChannels_includes_def subscribe_def channel_of_def
  List.map_filter_def initial_def Let_def join_value_def

lemma connected_value:
  "connected = initial\<lparr>clientConnections := [''c1'' \<mapsto> \<lparr>readyState = OPEN, sent = []\<rparr>],
                       messagesProcessed := 1\<rparr>"
  by (simp add: connected_def handler_defs)

lemma joined_r1_facts:
  "roomClients joined_r1 ''r1'' = Some [''c1'']"
  "clients joined_r1 ''c1'' =
     Some \<lparr>client_id = ''c1'', roomId = ''r1'', instanceId = ''i1'', joinedAt = 5\<rparr>"
  "rooms joined_r1 ''r1'' = Some \<lparr>room_id = ''r1'', createdAt = 5, clientCount = 1,
                                  updatesCount = 0, lastUpdateAt = None\<rparr>"
  "documents joined_r1 ''r1'' = Some \<lparr>register = 0, state_fields = []\<rparr>"
  "listeners joined_r1 = [(''room:r1:updates'', ''r1'')]"
  "subscriptions joined_r1 ''room:r1:updates'' = Some ''r1''"
  by (simp_all add: joined_r1_def handler_defs)

lemma reachable_examples:
  "reachable refPlatform ''i1'' connected" "reachable refPlatform ''i1'' joined_r1"
  "reachable refPlatform ''i1'' edited_A" "reachable refPlatform ''i1'' orphaned"
  "reachable refPlatform ''i1'' two_rooms"
  unfolding connected_def joined_r1_def edited_A_def orphaned_def two_rooms_def
  by (rule reachable_run [OF reachable_initial])+


lemma frame_decodes:
  "decodeBinaryDocumentUpdate refPlatform 6 (update_frame 0x41 title_patch) (Some ''c1'') =
     Some (JObj [(''type'', JStr ''document-update''), (''roomId'', JStr ''A''),
                 (''clientId'', JStr ''c1''),
                 (''payload'', JObj [(''update'', JStr ''eyJ0aXRsZSI6IkRvYyJ9''),
                                     (''clientId'', JStr ''c1''), (''timestamp'', JNum 0)]),
                 (''timestamp'', JNum 6)])"
  "decodeBinaryDocumentUpdate refPlatform 5 (update_frame 0x78 empty_patch) (Some ''c1'') =
     Some (JObj [(''type'', JStr ''document-update''), (''roomId'', JStr ''x''),
                 (''clientId'', JStr ''c1''),
                 (''payload'', JObj [(''update'', JStr ''e30=''),
                                     (''clientId'', JStr ''c1''), (''timestamp'', JNum 0)]),
                 (''timestamp'', JNum 5)])"
  by (simp_all add: decodeBinaryDocumentUpdate_def update_frame_def title_patch_def
      empty_patch_def readUInt8_def readUInt16LE_def readUInt32LE_def readBigUInt64LE_def
      readUIntLE_def slice_def ascii_text_def char_of_def bit_Suc_0_iff optional_field_def
      or_empty_def base64_alphabet_def)

lemma frame_not_json: "looksLikeJson (update_frame r u) = False"
  by (simp add: update_frame_def kind_byte_not_json)

lemma patches_decode:
  "base64_decode ''eyJ0aXRsZSI6IkRvYyJ9'' = title_patch" "base64_decode ''e30='' = empty_patch"
  by (simp_all add: sextet_def base64_alphabet_def Let_def title_patch_def empty_patch_def)

lemma patches_parse:
  "update_path refPlatform title_patch = PatchPath (JObj [(''title'', JStr ''Doc'')])"
  "update_path refPlatform empty_patch = PatchPath (JObj [])"
  by (simp_all add: update_path_def jsonUpdateObj_def looksLikeJson_def white_space_encodings_def
      title_patch_def empty_patch_def ascii_text_def char_of_def bit_Suc_0_iff json_texts_def)

lemmas update_defs = frame_decodes frame_not_json patches_decode patches_parse
  applyJsonUpdate_def ref_set_def after_apply_def recordUpdate_def publish_def

lemma edited_A_facts:
  "roomClients edited_A ''A'' = Some [''c1'']"
  "documents edited_A ''A'' = Some \<lparr>register = 0, state_fields = [(''title'', JStr ''Doc'')]\<rparr>"
  "clients edited_A ''c1'' =
     Some \<lparr>client_id = ''c1'', roomId = ''A'', instanceId = ''i1'', joinedAt = 5\<rparr>"
  "rooms edited_A ''A'' = Some \<lparr>room_id = ''A'', createdAt = 5, clientCount = 1,
                                updatesCount = 1, lastUpdateAt = Some 6\<rparr>"
  by (simp_all add: edited_A_def handler_defs update_defs del: base64_decode.simps)

lemma orphaned_facts:
  "rooms orphaned ''x'' = None"
  "documents orphaned ''x'' = Some \<lparr>register = 0, state_fields = []\<rparr>"
  by (simp_all add: orphaned_def handler_defs update_defs del: base64_decode.simps)

lemma two_rooms_facts:
  "members_of two_rooms ''A'' = [''c1'']" "members_of two_rooms ''B'' = [''c1'']"
  "clients two_rooms ''c1'' =
     Some \<lparr>client_id = ''c1'', roomId = ''B'', instanceId = ''i1'', joinedAt = 6\<rparr>"
  by (simp_all add: two_rooms_def handler_defs members_of_def)

lemma moved_on_facts:
  "roomClients moved_on ''A'' = Some [''c1'']"
  "roomClients moved_on ''B'' = Some [''c1'']"
  "rooms moved_on ''A'' = Some \<lparr>room_id = ''A'', createdAt = 5, clientCount = 1,
                                updatesCount = 1, lastUpdateAt = Some 6\<rparr>"
  "rooms moved_on ''B'' = Some \<lparr>room_id = ''B'', createdAt = 7, clientCount = 1,
                                updatesCount = 0, lastUpdateAt = None\<rparr>"
  "documents moved_on ''A'' = Some \<lparr>register = 0, state_fields = [(''title'', JStr ''Doc'')]\<rparr>"
  "clients moved_on ''c1'' =
     Some \<lparr>client_id = ''c1'', roomId = ''B'', instanceId = ''i1'', joinedAt = 7\<rparr>"
  by (simp_all add: moved_on_def handler_defs update_defs del: base64_decode.simps)

lemma moved_on_reachable: "reachable refPlatform ''i1'' moved_on"
  unfolding moved_on_def by (rule reachable_run [OF reachable_initial])


lemma brace_text:
  "base64_decode ''e25vdCBqc29u'' = [0x7B, 0x6E, 0x6F, 0x74, 0x20, 0x6A, 0x73, 0x6F, 0x6E]"
  by (simp add: sextet_def base64_alphabet_def Let_def)

lemma title_parses:
  "looksLikeJson (base64_decode ''eyJ0aXRsZSI6IkRvYyJ9'')"
  "map_of json_texts (ascii_text (base64_decode ''eyJ0aXRsZSI6IkRvYyJ9'')) =
     Some (JObj [(''title'', JStr ''Doc'')])"
  by (simp_all add: patches_decode title_patch_def looksLikeJson_def white_space_encodings_def
      ascii_text_def char_of_def bit_Suc_0_iff json_texts_def del: base64_decode.simps)

section \<open>Self-echo suppression\<close>

text \<open>
  C2. A message from the replication bus that parses and whose \<^verbatim>\<open>instanceId\<close> is the id
  of this instance is skipped: \<^verbatim>\<open>handleRedisUpdate\<close> returns the state it was given,
  so no document, no room statistic, no connection and no outbox changes; the same holds
  of the delivery of the message to every listener of a channel.
\<close>

theorem C2_self_echo_suppressed:
  assumes "jsonParse P redisMessage = Some update"
    and "js_get update ''instanceId'' = Some (JStr inst)"
  shows "handleRedisUpdate P inst now room redisMessage s = s \<and>
         deliver P inst now channel redisMessage s = s"
proof -
  have h: "handleRedisUpdate P inst now r redisMessage t = t" for r t
    using assms by (cases update) (simp_all add: handleRedisUpdate_def)
  have "fold (\<lambda>(ch, room) s'. if ch = channel
                then handleRedisUpdate P inst now room redisMessage s' else s') xs t = t" for xs t
    by (induction xs arbitrary: t) (auto simp: h)
  then show ?thesis by (simp add: h deliver_def)
qed

text \<open>The echo of instance \<open>i1\<close>, delivered to \<open>i1\<close> while a client is in room \<open>r1\<close>.\<close>

theorem C2_self_echo_suppressed_witness:
  "jsonParse refPlatform echo_text = Some echo_value \<and>
   js_get echo_value ''instanceId'' = Some (JStr ''i1'') \<and>
   listeners joined_r1 = [(''room:r1:updates'', ''r1'')] \<and>
   handleRedisUpdate refPlatform ''i1'' 9 ''r1'' echo_text joined_r1 = joined_r1 \<and>
   deliver refPlatform ''i1'' 9 ''room:r1:updates'' echo_text joined_r1 = joined_r1"
proof -
  have p: "jsonParse refPlatform echo_text = Some echo_value" by simp
  have i: "js_get echo_value ''instanceId'' = Some (JStr ''i1'')" by (simp add: echo_value_def)
  from C2_self_echo_suppressed [OF p i, of 9 "''r1''" joined_r1 "''room:r1:updates''"] p i
  show ?thesis by (simp add: joined_r1_facts)
qed

section \<open>Removal of the last member\<close>

text \<open>
  In a reachable state, when the member set of room \<open>r\<close> is \<open>[c]\<close> and the record of \<open>c\<close>
  names \<open>r\<close>, \<^verbatim>\<open>removeClientFromRoom\<close> deletes the room record, the member set and the
  document of \<open>r\<close> in that same call. A join of \<open>r\<close> right after returns, and creates a
  fresh room record (one client, no updates) and a new document, whose encoded state is
  that of a new document.
\<close>

lemma last_member_removal:
  assumes "reachable P inst s" and "roomClients s r = Some [c]"
    and "clients s c = Some client" and "roomId client = r"
  shows "rooms (removeClientFromRoom c s) r = None \<and>
         roomClients (removeClientFromRoom c s) r = None \<and>
         documents (removeClientFromRoom c s) r = None \<and>
         (\<exists>s'. addClientToRoom P now c' r i (removeClientFromRoom c s) = Returns s' \<and>
            rooms s' r = Some \<lparr>room_id = r, createdAt = now, clientCount = 1,
                                updatesCount = 0, lastUpdateAt = None\<rparr> \<and>
            roomClients s' r = Some [c'] \<and>
            documents s' r = Some (yNewDoc P) \<and>
            fst (getDocumentState P r s') = yEncodeStateAsUpdate P (yNewDoc P))"
proof -
  have ok: "registry_ok s" by (rule reachable_registry_ok [OF assms(1)])
  have L: "removeClientFromRoom c s = left c s" by (rule removeClientFromRoom_left [OF ok])
  have ok': "registry_ok (left c s)" by (rule registry_ok_left [OF ok])
  have gone: "rooms (left c s) r = None \<and> roomClients (left c s) r = None \<and>
              documents (left c s) r = None"
    using assms(2-4) by (simp add: left_def set_delete_def)
  then show ?thesis
    by (simp add: L addClientToRoom_joined [OF ok'] joined_def doc_or_new_def set_add_def
        getDocumentState_def getOrCreateDocument_def)
qed

text \<open>
  So it is in room \<open>A\<close> with one member and a document whose title has been set, when the
  member leaves and another client joins.
\<close>

lemma last_member_removal_example:
  "reachable refPlatform ''i1'' edited_A \<and> roomClients edited_A ''A'' = Some [''c1''] \<and>
   documents edited_A ''A'' =
     Some \<lparr>register = 0, state_fields = [(''title'', JStr ''Doc'')]\<rparr> \<and>
   rooms (removeClientFromRoom ''c1'' edited_A) ''A'' = None \<and>
   documents (removeClientFromRoom ''c1'' edited_A) ''A'' = None \<and>
   (\<exists>s'. addClientToRoom refPlatform 9 ''c2'' ''A'' ''i1'' (removeClientFromRoom ''c1'' edited_A) =
           Returns s' \<and>
         roomClients s' ''A'' = Some [''c2''] \<and>
         documents s' ''A'' = Some \<lparr>register = 0, state_fields = []\<rparr> \<and>
         fst (getDocumentState refPlatform ''A'' s') = [0, 0, 0, 0])"
proof -
  have r: "roomId \<lparr>client_id = ''c1'', roomId = ''A'', instanceId = ''i1'', joinedAt = 5\<rparr> = ''A''"
    by simp
  from last_member_removal [OF reachable_examples(3) edited_A_facts(1) edited_A_facts(3) r,
      where now = 9 and c' = "''c2''" and i = "''i1''"]
  show ?thesis by (auto simp: reachable_examples edited_A_facts ref_encode_def)
qed

text \<open>
  C3 fails for a room whose last member has joined another room since. Client \<open>c1\<close> joins
  \<open>A\<close>, sets the title of the document of \<open>A\<close>, and joins \<open>B\<close> without leaving \<open>A\<close>: it is
  the only member of \<open>A\<close>, and its record names \<open>B\<close>. \<^verbatim>\<open>removeClientFromRoom\<close> for \<open>c1\<close>
  deletes the record of \<open>c1\<close> and room \<open>B\<close>. Room \<open>A\<close> keeps its record, its member \<open>c1\<close>
  and its document; the next client that joins \<open>A\<close> is added to the room created at time
  5, as its second member, and the document it finds has the title.
\<close>

theorem C3_stale_member_keeps_room:
  "reachable refPlatform ''i1'' moved_on \<and>
   roomClients moved_on ''A'' = Some [''c1''] \<and>
   rooms (removeClientFromRoom ''c1'' moved_on) ''A'' =
     Some \<lparr>room_id = ''A'', createdAt = 5, clientCount = 1, updatesCount = 1,
           lastUpdateAt = Some 6\<rparr> \<and>
   roomClients (removeClientFromRoom ''c1'' moved_on) ''A'' = Some [''c1''] \<and>
   documents (removeClientFromRoom ''c1'' moved_on) ''A'' =
     Some \<lparr>register = 0, state_fields = [(''title'', JStr ''Doc'')]\<rparr> \<and>
   clients (removeClientFromRoom ''c1'' moved_on) ''c1'' = None \<and>
   rooms (removeClientFromRoom ''c1'' moved_on) ''B'' = None \<and>
   (\<exists>s'. addClientToRoom refPlatform 9 ''c2'' ''A'' ''i1'' (removeClientFromRoom ''c1'' moved_on) =
            Returns s' \<and>
          rooms s' ''A'' = Some \<lparr>room_id = ''A'', createdAt = 5, clientCount = 2,
                                 updatesCount = 1, lastUpdateAt = Some 6\<rparr> \<and>
          roomClients s' ''A'' = Some [''c1'', ''c2''] \<and>
          documents s' ''A'' = Some \<lparr>register = 0, state_fields = [(''title'', JStr ''Doc'')]\<rparr>)"
proof -
  have ok: "registry_ok moved_on" by (rule reachable_registry_ok [OF moved_on_reachable])
  have L: "removeClientFromRoom ''c1'' moved_on = left ''c1'' moved_on"
    by (rule removeClientFromRoom_left [OF ok])
  have J: "addClientToRoom refPlatform 9 ''c2'' ''A'' ''i1'' (left ''c1'' moved_on) =
           Returns (joined refPlatform 9 ''c2'' ''A'' ''i1'' (left ''c1'' moved_on))"
    by (rule addClientToRoom_joined [OF registry_ok_left [OF ok]])
  have R: "rooms (left ''c1'' moved_on) ''A'' = rooms moved_on ''A''"
    "roomClients (left ''c1'' moved_on) ''A'' = roomClients moved_on ''A''"
    "documents (left ''c1'' moved_on) ''A'' = documents moved_on ''A''"
    "clients (left ''c1'' moved_on) ''c1'' = None"
    "rooms (left ''c1'' moved_on) ''B'' = None"
    by (simp_all add: left_def moved_on_facts set_delete_def)
  show ?thesis
    unfolding L J
    by (simp add: R moved_on_reachable moved_on_facts joined_def set_add_def doc_or_new_def
        Let_def)
qed

section \<open>The binary frame decoder\<close>



section \<open>Frames that do not decode\<close>

text \<open>
  C5. In a reachable state, a frame that decodes on neither path, arriving on a stored and
  open connection, has one effect: one message of type \<^verbatim>\<open>error\<close> with the text "Invalid
  message format" is appended to the sender's outbox; the connection stays stored and
  open and no room, client or document changes. A frame that decodes to a \<^verbatim>\<open>JOIN_ROOM\<close>
  with a room id, sent next on the same connection, succeeds: the client gets its record
  for the room and is in the room's member set, the connection is still open, and its
  outbox continues with the \<^verbatim>\<open>document-state\<close> message of the room, which carries the
  encoded state of the room's document, and the \<^verbatim>\<open>ack\<close> of the join.
\<close>

theorem C5_invalid_frame_answered:
  assumes "reachable P inst s" and "clientConnections s c = Some ws" and "readyState ws = OPEN"
    and "decodeFrame P now c data = None"
    and "decodeFrame P now' c data' = Some message"
    and "js_get message ''type'' = Some (JStr ''join-room'')"
    and "js_get message ''roomId'' = Some (JStr room)" and "room \<noteq> []"
  shows "handleMessage P inst now sub_ok reply c data s =
           s\<lparr>clientConnections := (clientConnections s)(c \<mapsto>
                ws\<lparr>sent := sent ws @
                  [JObj [(''type'', JStr ''error''), (''roomId'', JStr []),
                         (''payload'', JObj [(''error'', JStr ''Invalid message format'')]),
                         (''timestamp'', JNum (int now))]]\<rparr>)\<rparr> \<and>
         clients (handleMessage P inst now' sub_ok' reply' c data'
                    (handleMessage P inst now sub_ok reply c data s)) c =
           Some \<lparr>client_id = c, roomId = room, instanceId = inst, joinedAt = now'\<rparr> \<and>
         (\<exists>members ws' extra.
            roomClients (handleMessage P inst now' sub_ok' reply' c data'
                           (handleMessage P inst now sub_ok reply c data s)) room = Some members \<and>
            c \<in> set members \<and>
            clientConnections (handleMessage P inst now' sub_ok' reply' c data'
                                 (handleMessage P inst now sub_ok reply c data s)) c = Some ws' \<and>
            readyState ws' = OPEN \<and>
            sent ws' = sent ws @
              [JObj [(''type'', JStr ''error''), (''roomId'', JStr []),
                     (''payload'', JObj [(''error'', JStr ''Invalid message format'')]),
                     (''timestamp'', JNum (int now))],
               JObj [(''type'', JStr ''document-state''), (''roomId'', JStr room),
                     (''clientId'', JStr c),
                     (''payload'', JObj
                        [(''state'', JStr (toBase64 P (yEncodeStateAsUpdate P
                            (case documents s room of None \<Rightarrow> yNewDoc P | Some doc \<Rightarrow> doc)))),
                         (''timestamp'', JNum (int now'))]),
                     (''timestamp'', JNum (int now'))],
               JObj [(''type'', JStr ''ack''), (''roomId'', JStr room), (''clientId'', JStr c),
                     (''payload'', JObj [(''message'', JStr (''You joined the room '' @ room)),
                                         (''clientJoined'', JStr c)]),
                     (''timestamp'', JNum (int now'))]] @ extra)"
proof -
  let ?err = "JObj [(''type'', JStr ''error''), (''roomId'', JStr []),
                    (''payload'', JObj [(''error'', JStr ''Invalid message format'')]),
                    (''timestamp'', JNum (int now))]"
  let ?s1 = "s\<lparr>clientConnections := (clientConnections s)(c \<mapsto>
                ws\<lparr>sent := sent ws @ [?err]\<rparr>)\<rparr>"
  have first: "handleMessage P inst now sub_ok reply c data s = ?s1"
    using assms(2-4)
    by (simp add: handleMessage_def sendError_def send_to_def ws_send_def error_message_def)
  let ?s2 = "?s1\<lparr>messagesProcessed := messagesProcessed ?s1 + 1\<rparr>"
  have ok: "registry_ok ?s2"
    using reachable_registry_ok [OF assms(1)] by simp
  have op: "is_open ?s2 c" using assms(3) by (simp add: is_open_def)
  have ob: "outbox ?s2 c = sent ws @ [?err]"
    by (simp add: outbox_def)
  have dn: "doc_or_new P room ?s2 =
            (case documents s room of None \<Rightarrow> yNewDoc P | Some doc \<Rightarrow> doc)"
    by (simp add: doc_or_new_def)
  have nn: "message \<noteq> JNull" using assms(6) by auto
  have rm: "roomId_of message = room" using assms(7) by (simp add: roomId_of_def)
  let ?j = "handleJoinRoom P inst now' sub_ok' c message ?s2"
  let ?f = "handleMessage P inst now' sub_ok' reply' c data'
              (handleMessage P inst now sub_ok reply c data s)"
  have second: "?f = ?j\<lparr>latenciesRecorded := latenciesRecorded ?j + 1\<rparr>"
    unfolding first using assms(5,6) nn by (simp add: handleMessage_def route_def Let_def)
  from handleJoinRoom_succeeds [OF ok op rm assms(8), of P inst now' sub_ok']
  obtain extra where j: "clients ?j c =
           Some \<lparr>client_id = c, roomId = room, instanceId = inst, joinedAt = now'\<rparr>"
      "c \<in> set (members_of ?j room)" "is_open ?j c"
      "outbox ?j c = outbox ?s2 c @
         [state_message P now' room c (yEncodeStateAsUpdate P (doc_or_new P room ?s2)),
          joined_ack now' room c] @ extra"
    by blast
  have "\<exists>members. roomClients ?j room = Some members \<and> c \<in> set members"
    using j(2) by (cases "roomClients ?j room") (simp_all only: members_of_def option.case, simp_all)
  then obtain members where m: "roomClients ?j room = Some members" "c \<in> set members"
    by blast
  have "\<exists>ws'. clientConnections ?j c = Some ws' \<and> readyState ws' = OPEN"
    using j(3) by (cases "clientConnections ?j c") (simp_all only: is_open_def option.case, simp_all)
  then obtain ws' where w: "clientConnections ?j c = Some ws'" "readyState ws' = OPEN"
    by blast
  have sw: "sent ws' = sent ws @ [?err,
         state_message P now' room c (yEncodeStateAsUpdate P
            (case documents s room of None \<Rightarrow> yNewDoc P | Some doc \<Rightarrow> doc)),
         joined_ack now' room c] @ extra"
    using j(4) w(1) ob dn by (simp add: outbox_def)
  have c2: "clients ?f c =
           Some \<lparr>client_id = c, roomId = room, instanceId = inst, joinedAt = now'\<rparr>"
    unfolding second using j(1) by simp
  have m2: "roomClients ?f room = Some members" unfolding second using m(1) by simp
  have w2: "clientConnections ?f c = Some ws'" unfolding second using w(1) by simp
  show ?thesis
    using first c2 m2 m(2) w2 w(2) sw
    by (simp add: state_message_def joined_ack_def)
qed

text \<open>The text frame \<open>{not json\<close>, then a join of \<open>r1\<close>, on the connection of \<open>c1\<close>.\<close>

theorem C5_invalid_frame_answered_witness:
  "reachable refPlatform ''i1'' connected \<and>
   clientConnections connected ''c1'' = Some \<lparr>readyState = OPEN, sent = []\<rparr> \<and>
   decodeFrame refPlatform 5 ''c1'' (Text ''{not json'') = None \<and>
   decodeFrame refPlatform 6 ''c1'' (Text (join_text ''r1'')) = Some (join_value ''r1'') \<and>
   handleMessage refPlatform ''i1'' 5 True None ''c1'' (Text ''{not json'') connected =
     connected\<lparr>clientConnections := (clientConnections connected)(''c1'' \<mapsto>
        \<lparr>readyState = OPEN,
         sent = [JObj [(''type'', JStr ''error''), (''roomId'', JStr []),
                       (''payload'', JObj [(''error'', JStr ''Invalid message format'')]),
                       (''timestamp'', JNum 5)]]\<rparr>)\<rparr> \<and>
   clients (handleMessage refPlatform ''i1'' 6 True None ''c1'' (Text (join_text ''r1''))
             (handleMessage refPlatform ''i1'' 5 True None ''c1'' (Text ''{not json'') connected))
     ''c1'' = Some \<lparr>client_id = ''c1'', roomId = ''r1'', instanceId = ''i1'', joinedAt = 6\<rparr> \<and>
   (\<exists>members ws' extra.
      roomClients (handleMessage refPlatform ''i1'' 6 True None ''c1'' (Text (join_text ''r1''))
             (handleMessage refPlatform ''i1'' 5 True None ''c1'' (Text ''{not json'') connected))
        ''r1'' = Some members \<and> ''c1'' \<in> set members \<and>
      clientConnections
            (handleMessage refPlatform ''i1'' 6 True None ''c1'' (Text (join_text ''r1''))
             (handleMessage refPlatform ''i1'' 5 True None ''c1'' (Text ''{not json'') connected))
        ''c1'' = Some ws' \<and> readyState ws' = OPEN \<and>
      sent ws' =
        [JObj [(''type'', JStr ''error''), (''roomId'', JStr []),
               (''payload'', JObj [(''error'', JStr ''Invalid message format'')]),
               (''timestamp'', JNum 5)],
         JObj [(''type'', JStr ''document-state''), (''roomId'', JStr ''r1''),
               (''clientId'', JStr ''c1''),
               (''payload'', JObj [(''state'', JStr ''AAAAAA==''), (''timestamp'', JNum 6)]),
               (''timestamp'', JNum 6)],
         JObj [(''type'', JStr ''ack''), (''roomId'', JStr ''r1''), (''clientId'', JStr ''c1''),
               (''payload'', JObj [(''message'', JStr ''You joined the room r1''),
                                   (''clientJoined'', JStr ''c1'')]),
               (''timestamp'', JNum 6)]] @ extra)"
proof -
  have c: "clientConnections connected ''c1'' = Some \<lparr>readyState = OPEN, sent = []\<rparr>"
    by (simp add: connected_value)
  have o: "readyState \<lparr>readyState = OPEN, sent = []\<rparr> = OPEN" by simp
  have d1: "decodeFrame refPlatform 5 ''c1'' (Text ''{not json'') = None"
    by (simp add: decodeFrame_def)
  have d2: "decodeFrame refPlatform 6 ''c1'' (Text (join_text ''r1'')) = Some (join_value ''r1'')"
    by (simp add: decodeFrame_def)
  have t: "js_get (join_value ''r1'') ''type'' = Some (JStr ''join-room'')"
    by (simp add: join_value_def)
  have r: "js_get (join_value ''r1'') ''roomId'' = Some (JStr ''r1'')" "''r1'' \<noteq> []"
    by (simp_all add: join_value_def)
  have e: "documents connected ''r1'' = None"
    "base64_encode (ref_encode \<lparr>register = 0, state_fields = []\<rparr>) = ''AAAAAA==''"
    by (simp_all add: connected_value initial_def ref_encode_def base64_alphabet_def)
  note T = C5_invalid_frame_answered [OF reachable_examples(1) c o d1 d2 t r, of True None True None]
  have A: "handleMessage refPlatform ''i1'' 5 True None ''c1'' (Text ''{not json'') connected =
     connected\<lparr>clientConnections := (clientConnections connected)(''c1'' \<mapsto>
        \<lparr>readyState = OPEN,
         sent = [JObj [(''type'', JStr ''error''), (''roomId'', JStr []),
                       (''payload'', JObj [(''error'', JStr ''Invalid message format'')]),
                       (''timestamp'', JNum 5)]]\<rparr>)\<rparr>"
    using T [THEN conjunct1] by simp
  have B: "clients (handleMessage refPlatform ''i1'' 6 True None ''c1'' (Text (join_text ''r1''))
             (handleMessage refPlatform ''i1'' 5 True None ''c1'' (Text ''{not json'') connected))
     ''c1'' = Some \<lparr>client_id = ''c1'', roomId = ''r1'', instanceId = ''i1'', joinedAt = 6\<rparr>"
    using T [THEN conjunct2, THEN conjunct1] .
  have C: "\<exists>members ws' extra.
      roomClients (handleMessage refPlatform ''i1'' 6 True None ''c1'' (Text (join_text ''r1''))
             (handleMessage refPlatform ''i1'' 5 True None ''c1'' (Text ''{not json'') connected))
        ''r1'' = Some members \<and> ''c1'' \<in> set members \<and>
      clientConnections
            (handleMessage refPlatform ''i1'' 6 True None ''c1'' (Text (join_text ''r1''))
             (handleMessage refPlatform ''i1'' 5 True None ''c1'' (Text ''{not json'') connected))
        ''c1'' = Some ws' \<and> readyState ws' = OPEN \<and>
      sent ws' =
        [JObj [(''type'', JStr ''error''), (''roomId'', JStr []),
               (''payload'', JObj [(''error'', JStr ''Invalid message format'')]),
               (''timestamp'', JNum 5)],
         JObj [(''type'', JStr ''document-state''), (''roomId'', JStr ''r1''),
               (''clientId'', JStr ''c1''),
               (''payload'', JObj [(''state'', JStr ''AAAAAA==''), (''timestamp'', JNum 6)]),
               (''timestamp'', JNum 6)],
         JObj [(''type'', JStr ''ack''), (''roomId'', JStr ''r1''), (''clientId'', JStr ''c1''),
               (''payload'', JObj [(''message'', JStr ''You joined the room r1''),
                                   (''clientJoined'', JStr ''c1'')]),
               (''timestamp'', JNum 6)]] @ extra"
    using T [THEN conjunct2, THEN conjunct2] by (simp add: e)
  show ?thesis by (intro conjI) (rule reachable_examples(1) c d1 d2 A B C)+
qed

section \<open>The two update paths\<close>

text \<open>
  C6, as stated, fails: the payload \<open>e25vdCBqc29u\<close> decodes to the bytes of the text
  \<open>{not json\<close>, which begin with a brace and do not parse; the update takes the binary
  merge path.
\<close>

theorem C6_brace_text_takes_merge_path:
  "fromBase64 refPlatform ''e25vdCBqc29u'' = map of_char ''{not json'' \<and>
   toStringUtf8 refPlatform (fromBase64 refPlatform ''e25vdCBqc29u'') = ''{not json'' \<and>
   looksLikeJson (fromBase64 refPlatform ''e25vdCBqc29u'') \<and>
   update_path refPlatform (fromBase64 refPlatform ''e25vdCBqc29u'') = MergePath"
  by (simp add: brace_text ascii_text_def char_of_def bit_Suc_0_iff looksLikeJson_def
      white_space_encodings_def update_path_def jsonUpdateObj_def del: base64_decode.simps)

text \<open>
  C6, as amended. For a \<^verbatim>\<open>DOCUMENT_UPDATE\<close> with a room id and a string payload: when the
  decoded bytes look like JSON and parse (to a truthy value), the update is applied by
  \<^verbatim>\<open>applyJsonUpdate\<close>, which sets the entries of the object one after the other on the
  room's document, a later entry overwriting an earlier one; every other decoded byte
  string that is not empty is applied by \<^verbatim>\<open>applyUpdate\<close>, the binary merge path, and
  when that throws nothing else is done; an empty one leaves the state as it was, so
  nothing is mutated and nothing is sent.
\<close>

theorem C6_update_paths:
  assumes "roomId_of message = room" and "room \<noteq> []"
    and "js_get message ''payload'' = Some payload" and "js_truthy (Some payload)"
    and "js_get payload ''update'' = Some (JStr u)"
  shows
   "(looksLikeJson (fromBase64 P u) \<and> jsonParse P (toStringUtf8 P (fromBase64 P u)) = Some obj \<and>
       js_truthy (Some obj) \<longrightarrow>
       handleDocumentUpdate P inst now reply c message s =
         after_apply inst now reply c room u (applyJsonUpdate P room obj s) \<and>
       documents (applyJsonUpdate P room obj s) room =
         Some (fold (\<lambda>(key, value) d. yMapSet P d key value) (Object_entries obj)
                 (doc_or_new P room s))) \<and>
    (\<not> (looksLikeJson (fromBase64 P u) \<and>
         js_truthy (jsonParse P (toStringUtf8 P (fromBase64 P u)))) \<and>
       fromBase64 P u \<noteq> [] \<longrightarrow>
       handleDocumentUpdate P inst now reply c message s =
         (case applyUpdate P room (fromBase64 P u) s of
            Throws s1 \<Rightarrow> s1
          | Returns s1 \<Rightarrow> after_apply inst now reply c room u s1) \<and>
       documents (after (applyUpdate P room (fromBase64 P u) s)) room =
         Some (merge P (doc_or_new P room s) (fromBase64 P u))) \<and>
    (fromBase64 P u = [] \<longrightarrow> handleDocumentUpdate P inst now reply c message s = s)"
proof (intro conjI impI)
  assume a: "looksLikeJson (fromBase64 P u) \<and>
             jsonParse P (toStringUtf8 P (fromBase64 P u)) = Some obj \<and> js_truthy (Some obj)"
  then have "update_path P (fromBase64 P u) = PatchPath obj"
    by (simp add: update_path_def jsonUpdateObj_def)
  then show "handleDocumentUpdate P inst now reply c message s =
         after_apply inst now reply c room u (applyJsonUpdate P room obj s)"
    using assms by (simp add: handleDocumentUpdate_def Let_def)
  show "documents (applyJsonUpdate P room obj s) room =
         Some (fold (\<lambda>(key, value) d. yMapSet P d key value) (Object_entries obj)
                 (doc_or_new P room s))"
    by (simp add: applyJsonUpdate_def getOrCreateDocument_def doc_or_new_def Let_def
        split: option.splits)
next
  assume a: "\<not> (looksLikeJson (fromBase64 P u) \<and>
         js_truthy (jsonParse P (toStringUtf8 P (fromBase64 P u)))) \<and> fromBase64 P u \<noteq> []"
  then have "update_path P (fromBase64 P u) = MergePath"
    by (auto simp: update_path_def jsonUpdateObj_def split: option.splits)
  then show "handleDocumentUpdate P inst now reply c message s =
         (case applyUpdate P room (fromBase64 P u) s of
            Throws s1 \<Rightarrow> s1
          | Returns s1 \<Rightarrow> after_apply inst now reply c room u s1)"
    using assms by (simp add: handleDocumentUpdate_def Let_def)
  show "documents (after (applyUpdate P room (fromBase64 P u) s)) room =
          Some (merge P (doc_or_new P room s) (fromBase64 P u))"
    using a by (simp add: after_applyUpdate)
next
  assume a: "fromBase64 P u = []"
  then have "update_path P (fromBase64 P u) = Dropped"
    by (simp add: update_path_def jsonUpdateObj_def looksLikeJson_def)
  then show "handleDocumentUpdate P inst now reply c message s = s"
    using assms by (simp add: handleDocumentUpdate_def Let_def)
qed

text \<open>A patch \<open>{"title":"Doc"}\<close>, the text \<open>{not json\<close> and an empty payload, for room \<open>r1\<close>.\<close>

theorem C6_update_paths_witness:
  "handleDocumentUpdate refPlatform ''i1'' 9 None ''c1'' (update_message_of ''eyJ0aXRsZSI6IkRvYyJ9'')
     joined_r1 =
     after_apply ''i1'' 9 None ''c1'' ''r1'' ''eyJ0aXRsZSI6IkRvYyJ9''
       (applyJsonUpdate refPlatform ''r1'' (JObj [(''title'', JStr ''Doc'')]) joined_r1) \<and>
   documents (applyJsonUpdate refPlatform ''r1'' (JObj [(''title'', JStr ''Doc'')]) joined_r1) ''r1'' =
     Some \<lparr>register = 0, state_fields = [(''title'', JStr ''Doc'')]\<rparr> \<and>
   handleDocumentUpdate refPlatform ''i1'' 9 None ''c1'' (update_message_of ''e25vdCBqc29u'')
     joined_r1 =
     (case applyUpdate refPlatform ''r1'' (map of_char ''{not json'') joined_r1 of
        Throws s1 \<Rightarrow> s1
      | Returns s1 \<Rightarrow> after_apply ''i1'' 9 None ''c1'' ''r1'' ''e25vdCBqc29u'' s1) \<and>
   handleDocumentUpdate refPlatform ''i1'' 9 None ''c1'' (update_message_of []) joined_r1 =
     joined_r1"
proof -
  have h: "roomId_of (update_message_of u) = ''r1''" "''r1'' \<noteq> []"
    "js_get (update_message_of u) ''payload'' = Some (JObj [(''update'', JStr u)])"
    "js_truthy (Some (JObj [(''update'', JStr u)]))"
    "js_get (JObj [(''update'', JStr u)]) ''update'' = Some (JStr u)" for u
    by (simp_all add: update_message_of_def roomId_of_def)
  note t = C6_update_paths [OF h, of refPlatform _ "JObj [(''title'', JStr ''Doc'')]" "''i1''" 9 None "''c1''" joined_r1]
  have 1: "handleDocumentUpdate refPlatform ''i1'' 9 None ''c1''
             (update_message_of ''eyJ0aXRsZSI6IkRvYyJ9'') joined_r1 =
           after_apply ''i1'' 9 None ''c1'' ''r1'' ''eyJ0aXRsZSI6IkRvYyJ9''
             (applyJsonUpdate refPlatform ''r1'' (JObj [(''title'', JStr ''Doc'')]) joined_r1) \<and>
           documents (applyJsonUpdate refPlatform ''r1'' (JObj [(''title'', JStr ''Doc'')]) joined_r1) ''r1'' =
             Some \<lparr>register = 0, state_fields = [(''title'', JStr ''Doc'')]\<rparr>"
    using t [of "''eyJ0aXRsZSI6IkRvYyJ9''"] title_parses
    by (simp add: doc_or_new_def joined_r1_facts ref_set_def del: base64_decode.simps)
  have 2: "handleDocumentUpdate refPlatform ''i1'' 9 None ''c1'' (update_message_of ''e25vdCBqc29u'')
             joined_r1 =
           (case applyUpdate refPlatform ''r1'' (map of_char ''{not json'') joined_r1 of
              Throws s1 \<Rightarrow> s1
            | Returns s1 \<Rightarrow> after_apply ''i1'' 9 None ''c1'' ''r1'' ''e25vdCBqc29u'' s1)"
    using t [of "''e25vdCBqc29u''"] parse_bad
    by (simp add: brace_text ascii_text_def char_of_def bit_Suc_0_iff del: base64_decode.simps)
  have 3: "handleDocumentUpdate refPlatform ''i1'' 9 None ''c1'' (update_message_of []) joined_r1 =
           joined_r1"
    using t [of "[]"] by simp
  from 1 2 3 show ?thesis by simp
qed

section \<open>Rooms and documents\<close>

text \<open>
  C7, as stated, fails: a connected client that has joined no room sends a well-formed
  binary frame for room \<open>x\<close> that carries the patch \<open>{}\<close>; \<^verbatim>\<open>applyJsonUpdate\<close> creates
  the document of \<open>x\<close>, and no room record exists for \<open>x\<close>.
\<close>

theorem C7_orphan_document:
  "reachable refPlatform ''i1'' orphaned \<and> rooms orphaned ''x'' = None \<and>
   documents orphaned ''x'' = Some \<lparr>register = 0, state_fields = []\<rparr>"
  by (simp add: reachable_examples orphaned_facts)

text \<open>
  C7, as amended. In every reachable state a room id that has a record in the registry
  has a document in the store. (The converse fails, see the state after it.)
\<close>

theorem C7_room_has_document:
  assumes "reachable P inst s" and "rooms s r = Some room"
  shows "documents s r \<noteq> None"
  using ok_doc [OF reachable_registry_ok [OF assms(1)] assms(2)] .

text \<open>Room \<open>r1\<close> after its first join.\<close>

theorem C7_room_has_document_witness:
  "reachable refPlatform ''i1'' joined_r1 \<and>
   rooms joined_r1 ''r1'' = Some \<lparr>room_id = ''r1'', createdAt = 5, clientCount = 1,
                                  updatesCount = 0, lastUpdateAt = None\<rparr> \<and>
   documents joined_r1 ''r1'' \<noteq> None"
  using C7_room_has_document [OF reachable_examples(2) joined_r1_facts(3)]
  by (simp add: reachable_examples joined_r1_facts)

section \<open>Membership of several rooms\<close>

text \<open>
  C8. One client joins room \<open>A\<close> and then room \<open>B\<close> without leaving \<open>A\<close>: it is in the
  member sets of both rooms, while its record names \<open>B\<close> only.
\<close>

theorem C8_member_of_two_rooms:
  "reachable refPlatform ''i1'' two_rooms \<and>
   members_of two_rooms ''A'' = [''c1''] \<and> members_of two_rooms ''B'' = [''c1''] \<and>
   clients two_rooms ''c1'' =
     Some \<lparr>client_id = ''c1'', roomId = ''B'', instanceId = ''i1'', joinedAt = 6\<rparr>"
  by (simp add: reachable_examples two_rooms_facts)

section \<open>Subscriptions\<close>

text \<open>
  C9, as stated, fails for \<^verbatim>\<open>RedisService.subscribe\<close> itself: a second call for a
  channel replaces the stored callback and registers one more listener with the Redis
  client, also when the callback is the same.
\<close>

theorem C9_resubscribe_not_noop:
  "subscriptions (after (subscribe ''ch'' ''a'' True (initial :: ydoc server))) ''ch'' = Some ''a'' \<and>
   listeners (after (subscribe ''ch'' ''a'' True (initial :: ydoc server))) = [(''ch'', ''a'')] \<and>
   subscriptions (after (subscribe ''ch'' ''b'' True
      (after (subscribe ''ch'' ''a'' True (initial :: ydoc server))))) ''ch'' = Some ''b'' \<and>
   listeners (after (subscribe ''ch'' ''b'' True
      (after (subscribe ''ch'' ''a'' True (initial :: ydoc server))))) =
     [(''ch'', ''a''), (''ch'', ''b'')] \<and>
   after (subscribe ''ch'' ''a'' True (after (subscribe ''ch'' ''a'' True (initial :: ydoc server))))
     \<noteq> after (subscribe ''ch'' ''a'' True (initial :: ydoc server))"
proof -
  have "listeners (after (subscribe ''ch'' ''a'' True
          (after (subscribe ''ch'' ''a'' True (initial :: ydoc server))))) \<noteq>
        listeners (after (subscribe ''ch'' ''a'' True (initial :: ydoc server)))"
    by (simp add: subscribe_def initial_def)
  then have "after (subscribe ''ch'' ''a'' True
          (after (subscribe ''ch'' ''a'' True (initial :: ydoc server)))) \<noteq>
        after (subscribe ''ch'' ''a'' True (initial :: ydoc server))"
    by metis
  then show ?thesis by (simp add: subscribe_def initial_def)
qed

text \<open>
  C9, as amended. \<^verbatim>\<open>subscribe\<close> keeps one callback per channel, the one of the latest
  call, and adds the channel to the subscribed channels (which a repeated call leaves as
  they are). The guard is in the gateway: a join of a room whose channel is already among
  the subscribed channels leaves the subscriptions and the listeners as they were.
\<close>

theorem C9_subscribe_guarded:
  "dom (subscriptions (after (subscribe channel callback ok s))) =
     insert channel (dom (subscriptions s)) \<and>
   subscriptions (after (subscribe channel callback ok s)) channel = Some callback \<and>
   (subscribedChannels_includes s (channel_of (roomId_of message)) \<longrightarrow>
      subscriptions (handleJoinRoom P inst now sub_ok c message s) = subscriptions s \<and>
      listeners (handleJoinRoom P inst now sub_ok c message s) = listeners s)"
proof (intro conjI impI)
  show "dom (subscriptions (after (subscribe channel callback ok s))) =
          insert channel (dom (subscriptions s))"
    by (simp add: subscribe_def Let_def)
  show "subscriptions (after (subscribe channel callback ok s)) channel = Some callback"
    by (simp add: subscribe_def Let_def)
  assume a: "subscribedChannels_includes s (channel_of (roomId_of message))"
  have b: "subscriptions (after (addClientToRoom P now c (roomId_of message) inst s)) = subscriptions s"
          "listeners (after (addClientToRoom P now c (roomId_of message) inst s)) = listeners s"
    by simp_all
  show "subscriptions (handleJoinRoom P inst now sub_ok c message s) = subscriptions s"
    using a b
    by (cases "addClientToRoom P now c (roomId_of message) inst s")
      (auto simp: handleJoinRoom_def Let_def sendError_def case_prod_unfold
        subscribedChannels_includes_def)
  show "listeners (handleJoinRoom P inst now sub_ok c message s) = listeners s"
    using a b
    by (cases "addClientToRoom P now c (roomId_of message) inst s")
      (auto simp: handleJoinRoom_def Let_def sendError_def case_prod_unfold
        subscribedChannels_includes_def)
qed

text \<open>A second client joins room \<open>r1\<close>, whose channel is subscribed already.\<close>

theorem C9_subscribe_guarded_witness:
  "subscribedChannels_includes joined_r1 (channel_of (roomId_of (join_value ''r1''))) \<and>
   subscriptions (handleJoinRoom refPlatform ''i1'' 9 True ''c2'' (join_value ''r1'') joined_r1) =
     subscriptions joined_r1 \<and>
   listeners (handleJoinRoom refPlatform ''i1'' 9 True ''c2'' (join_value ''r1'') joined_r1) =
     [(''room:r1:updates'', ''r1'')]"
proof -
  have a: "subscribedChannels_includes joined_r1 (channel_of (roomId_of (join_value ''r1'')))"
    by (simp add: subscribedChannels_includes_def channel_of_def roomId_of_def join_value_def
        joined_r1_facts)
  from C9_subscribe_guarded [of "''ch''" "''a''" True joined_r1 "join_value ''r1''" refPlatform "''i1''" 9
      True "''c2''"] a
  show ?thesis by (simp add: joined_r1_facts)
qed

section \<open>Joining a room again\<close>




end
